theory Spec2Isabelle
  imports Complex_Main "HOL-Library.Word"
begin

section \<open>Errors (src/img/errors.go)\<close>

text \<open>
  Go's \<open>error\<close> interface, as far as the handler distinguishes its values: the four
  constants of package img, \<open>io.EOF\<close>, \<open>plugins.ErrSkipped\<close>, and any other error
  (\<open>fmt.Errorf\<close> and library errors), which carries its message.
\<close>

datatype error =
    ErrDoesNotExist
  | ErrInvalidFiletype
  | ErrDimensionsExceedLimits
  | ErrNotHandled
  | EOF
  | ErrSkipped
  | OtherError string

fun Error :: "error \<Rightarrow> string" where
  "Error ErrDoesNotExist = ''image file does not exist''"
| "Error ErrInvalidFiletype = ''invalid or unknown file type''"
| "Error ErrDimensionsExceedLimits = ''requested image size exceeds server maximums''"
| "Error ErrNotHandled = ''image not handled by this decoder''"
| "Error EOF = ''EOF''"
| "Error ErrSkipped = ''skipped''"
| "Error (OtherError m) = m"

section \<open>Decoder dispatch by suffix (src/unnamed/part\_002, src/openjpeg/image\_stream.go)\<close>

text \<open>
  \<open>filepath.Ext\<close> of the Go library: the scan runs from the last byte towards the
  first, stops at a path separator, and returns the suffix that starts at the first dot
  it meets; the empty string when it meets none. \<open>ExtScan\<close> walks the reversed path
  and carries the bytes already passed.
\<close>

fun ExtScan :: "string \<Rightarrow> string \<Rightarrow> string" where
  "ExtScan [] seen = []"
| "ExtScan (c # cs) seen =
     (if c = CHR ''/'' then []
      else if c = CHR ''.'' then c # seen
      else ExtScan cs (c # seen))"

definition Ext :: "string \<Rightarrow> string" where
  "Ext path = ExtScan (rev path) []"

text \<open>
  The decode functions return \<open>(img.Decoder, error)\<close>; the constructors
  \<open>openjpeg.NewJP2Image\<close> and \<open>NewImage\<close> open files through C libraries and are
  parameters here.
\<close>

definition decodeJP2 :: "(string \<Rightarrow> error + 'd) \<Rightarrow> string \<Rightarrow> error + 'd" where
  "decodeJP2 NewJP2Image path =
     (if Ext path = ''.jp2'' then NewJP2Image path else Inl ErrNotHandled)"

definition decodeCommonFile :: "(string \<Rightarrow> error + 'd) \<Rightarrow> string \<Rightarrow> error + 'd" where
  "decodeCommonFile NewImage path =
     (if Ext path \<in> set [''.tif'', ''.tiff'', ''.png'', ''.jpg'', ''jpeg'', ''.gif'']
      then NewImage path
      else Inl ErrNotHandled)"

section \<open>Go integers\<close>

text \<open>
  Go's \<open>int\<close> is taken as 64 bits wide, two's complement. Values are modelled as
  \<open>int\<close>; \<open>wrap64\<close> is the wrap-around of an arithmetic result and \<open>go_quot\<close> the
  quotient of Go's \<open>/\<close>, which truncates towards zero.
\<close>

definition in_int64 :: "int \<Rightarrow> bool" where
  "in_int64 x = (- (2 ^ 63) \<le> x \<and> x < 2 ^ 63)"

definition wrap64 :: "int \<Rightarrow> int" where
  "wrap64 x = (x + 2 ^ 63) mod 2 ^ 64 - 2 ^ 63"

definition go_quot :: "int \<Rightarrow> int \<Rightarrow> int" where
  "go_quot a b = sgn a * sgn b * (\<bar>a\<bar> div \<bar>b\<bar>)"

definition MaxInt32 :: int where
  "MaxInt32 = 2147483647"

definition MaxInt64 :: int where
  "MaxInt64 = 9223372036854775807"

section \<open>Image metadata, constraints and the info document\<close>

text \<open>\<open>ImageInfo\<close>: what the info cache stores for an identifier.\<close>

record ImageInfo =
  Width :: int
  Height :: int
  TileWidth :: int
  TileHeight :: int
  Levels :: int

text \<open>\<open>img.Constraint\<close>: the maximums the server is willing to return.\<close>

record Constraint =
  Width :: int
  Height :: int
  Area :: int

text \<open>
  \<open>iiif.TileSize\<close>, \<open>iiif.Info\<close> and its profile, with the fields the handler reads
  or writes. A \<open>Height\<close> of 0 in a tile size is left out of the document, as are
  profile maxima of 0.
\<close>

record TileSize =
  Width :: int
  Height :: int
  ScaleFactors :: "int list"

record Profile =
  MaxArea :: int
  MaxWidth :: int
  MaxHeight :: int

record Info =
  ID :: string
  Width :: int
  Height :: int
  Tiles :: "TileSize list"
  Profile :: Profile

text \<open>
  Modelled from the spec: \<open>Constraint.SmallerThanAny\<close> is defined in a file of package
  img that is not among the sources. The spec has a request exceed a constraint when
  \<open>ow > MaxWidth \<or> oh > MaxHeight \<or> ow\<cdot>oh > MaxArea\<close>.
\<close>

definition SmallerThanAny :: "Constraint \<Rightarrow> int \<Rightarrow> int \<Rightarrow> bool" where
  "SmallerThanAny c w h =
     (w > Constraint.Width c \<or> h > Constraint.Height c \<or> w * h > Area c)"

text \<open>
  The scale-factor loop of \<open>buildInfo\<close>: \<open>x\<close> counts the levels, \<open>scale\<close> is
  shifted left once per round and \<open>sf\<close> collects the factors. A division by zero
  panics: it is the result \<open>None\<close>.
\<close>

function scaleFactors :: "int \<Rightarrow> int \<Rightarrow> int \<Rightarrow> int \<Rightarrow> int \<Rightarrow> int list \<Rightarrow> int list option" where
  "scaleFactors W H L x scale sf =
     (if x < L then
        (if scale = 0 then None
         else if go_quot W scale < 16 then Some sf
         else if go_quot H scale < 16 then Some sf
         else scaleFactors W H L (x + 1) (wrap64 (scale * 2)) (sf @ [scale]))
      else Some sf)"
  by pat_completeness auto
termination
  by (relation "measure (\<lambda>(W, H, L, x, scale, sf). nat (L - x))") auto

declare scaleFactors.simps [simp del]

text \<open>
  \<open>buildInfo\<close>. The handler contributes its \<open>Maximums\<close> and the document
  \<open>FeatureSet.Info()\<close> starts from, here \<open>base\<close>. The identifier is not used by
  the function.
\<close>

definition setMaximums :: "Constraint \<Rightarrow> ImageInfo \<Rightarrow> Info \<Rightarrow> Info" where
  "setMaximums maxs i info =
     (if SmallerThanAny maxs (ImageInfo.Width i) (ImageInfo.Height i)
      then info\<lparr>Profile :=
        (Profile info)\<lparr>MaxArea := Area maxs,
                        MaxWidth := Constraint.Width maxs,
                        MaxHeight := Constraint.Height maxs\<rparr>\<rparr>
      else info)"

definition setTiles :: "ImageInfo \<Rightarrow> Info \<Rightarrow> Info option" where
  "setTiles i info =
     (if TileWidth i > 0 then
        (case scaleFactors (Info.Width info) (Info.Height info) (Levels i) 0 1 [] of
           None \<Rightarrow> None
         | Some sf \<Rightarrow>
             Some (info\<lparr>Tiles :=
               [\<lparr>TileSize.Width = TileWidth i,
                 TileSize.Height = (if TileHeight i > 0 then TileHeight i else 0),
                 ScaleFactors = sf\<rparr>]\<rparr>))
      else Some info)"

definition buildInfo :: "Constraint \<Rightarrow> Info \<Rightarrow> ImageInfo \<Rightarrow> Info option" where
  "buildInfo maxs base i =
     setTiles i
       (setMaximums maxs i
          (base\<lparr>Info.Width := ImageInfo.Width i, Info.Height := ImageInfo.Height i\<rparr>))"

section \<open>Requests, responses and the handler's collaborators\<close>

text \<open>
  \<open>iiif.URL\<close> with the fields the handler reads; \<open>iiif.Format\<close> is a string type
  and \<open>iiif.Size\<close> carries the requested width and height.
\<close>

record Size =
  W :: int
  H :: int

record URL =
  Path :: string
  ID :: string
  Info :: bool
  Format :: string
  Size :: Size

definition FmtJPG :: string where
  "FmtJPG = ''jpg''"

text \<open>
  The request as the handler reads it: the header map (a key that is absent has no
  values), \<open>req.Host\<close>, whether \<open>req.TLS\<close> is set, the path of \<open>req.URL\<close> and
  the text \<open>req.URL.String()\<close>.
\<close>

record Request =
  Header :: "string \<Rightarrow> string list"
  Host :: string
  TLS :: bool
  URLPath :: string
  URLString :: string

text \<open>
  The response writer: its header map, the status code (0 until something is written),
  the body, and the target handed to \<open>http.Redirect\<close>.
\<close>

record ResponseWriter =
  RespHeader :: "string \<rightharpoonup> string"
  Code :: int
  Body :: string
  RedirectTo :: "string option"

definition newResponse :: ResponseWriter where
  "newResponse = \<lparr>RespHeader = Map.empty, Code = 0, Body = [], RedirectTo = None\<rparr>"

definition HeaderSet :: "string \<Rightarrow> string \<Rightarrow> ResponseWriter \<Rightarrow> ResponseWriter" where
  "HeaderSet k v w = w\<lparr>RespHeader := (RespHeader w)(k \<mapsto> v)\<rparr>"

definition Write :: "string \<Rightarrow> ResponseWriter \<Rightarrow> ResponseWriter" where
  "Write data w = w\<lparr>Code := (if Code w = 0 then 200 else Code w), Body := Body w @ data\<rparr>"

text \<open>
  \<open>http.Error\<close> replies with the code and the message as plain text;
  \<open>http.Redirect\<close> replies with the code and a \<open>Location\<close> built from the target.
\<close>

definition http_Error :: "ResponseWriter \<Rightarrow> string \<Rightarrow> int \<Rightarrow> ResponseWriter" where
  "http_Error w msg code =
     (HeaderSet ''X-Content-Type-Options'' ''nosniff''
        (HeaderSet ''Content-Type'' ''text/plain; charset=utf-8'' w))
       \<lparr>Code := code, Body := Body w @ msg @ [CHR 0x0A]\<rparr>"

definition http_Redirect :: "ResponseWriter \<Rightarrow> string \<Rightarrow> int \<Rightarrow> ResponseWriter" where
  "http_Redirect w target code = w\<lparr>Code := code, RedirectTo := Some target\<rparr>"

record HandlerError =
  Message :: string
  HCode :: int

definition NewError :: "string \<Rightarrow> int \<Rightarrow> HandlerError" where
  "NewError m c = \<lparr>Message = m, HCode = c\<rparr>"

text \<open>
  \<open>img.Resource\<close>: the file path and the metadata its decoder reports
  (\<open>GetWidth\<close>, \<open>GetHeight\<close>, \<open>GetTileWidth\<close>, \<open>GetTileHeight\<close>, \<open>GetLevels\<close>).
\<close>

record Resource =
  FilePath :: string
  Decoder :: ImageInfo

text \<open>
  \<open>iiif.FeatureSet\<close> through its two methods, and the handler. \<open>BaseURL\<close> is the
  scheme and host of the configured URL when there is one.
\<close>

record FeatureSet =
  Supported :: "URL \<Rightarrow> bool"
  FSInfo :: Info

record ImageHandler =
  BaseURL :: "(string \<times> string) option"
  WebPathPrefix :: string
  FeatureSet :: FeatureSet
  TilePath :: string
  Maximums :: Constraint

text \<open>
  The package-level state: the two caches (\<open>None\<close> is a nil cache) and the counters of
  \<open>stats\<close>. A cache is the map from its keys to its values; capacity and eviction
  belong to the cache library.
\<close>

record Globals =
  tileCache :: "(string \<rightharpoonup> string) option"
  infoCache :: "(string \<rightharpoonup> ImageInfo) option"
  TileCacheGet :: nat
  TileCacheHit :: nat
  TileCacheSet :: nat
  InfoCacheGet :: nat
  InfoCacheHit :: nat
  InfoCacheSet :: nat

text \<open>
  Functions of other packages the handler calls, with Go's pair results
  (value, error): \<open>iiif.NewURL\<close>, \<open>URL.Valid\<close>, \<open>URL.Error\<close>, \<open>ID.Escaped\<close>,
  the list \<open>idToPathPlugins\<close>, \<open>ioutil.ReadFile\<close>, \<open>json.Unmarshal\<close> into an
  \<open>iiif.Info\<close>, \<open>json.Marshal\<close>, \<open>img.NewResource\<close>, \<open>sendHeaders\<close>,
  \<open>Resource.Apply\<close>, \<open>EncodeImage\<close>, \<open>mime.TypeByExtension\<close> and the text of a
  \<open>url.URL\<close> made of scheme, host and path.
\<close>

record Env =
  NewURL :: "string \<Rightarrow> URL \<times> error option"
  Valid :: "URL \<Rightarrow> bool"
  URLError :: "URL \<Rightarrow> error"
  Escaped :: "string \<Rightarrow> string"
  idToPathPlugins :: "(string \<Rightarrow> string \<times> error option) list"
  ReadFile :: "string \<Rightarrow> string \<times> error option"
  Unmarshal :: "string \<Rightarrow> Info \<times> error option"
  Marshal :: "Info \<Rightarrow> string \<times> error option"
  NewResource :: "string \<Rightarrow> string \<Rightarrow> Resource \<times> error option"
  sendHeaders :: "ResponseWriter \<Rightarrow> Request \<Rightarrow> string \<Rightarrow> ResponseWriter \<times> error option"
  Apply :: "Resource \<Rightarrow> URL \<Rightarrow> Constraint \<Rightarrow> string \<times> error option"
  EncodeImage :: "string \<Rightarrow> string \<Rightarrow> string \<times> error option"
  TypeByExtension :: "string \<Rightarrow> string"
  URLText :: "string \<Rightarrow> string \<Rightarrow> string \<Rightarrow> string"

section \<open>The image handler (src/cmd/rais-server/image\_handler.go)\<close>

text \<open>\<open>strings.Split(h, ",")\<close>: the pieces between the commas, in order.\<close>

fun SplitComma :: "string \<Rightarrow> string list" where
  "SplitComma [] = [[]]"
| "SplitComma (c # cs) =
     (if c = CHR '','' then [] # SplitComma cs
      else (case SplitComma cs of
              [] \<Rightarrow> [[c]]
            | p # ps \<Rightarrow> (c # p) # ps))"

definition acceptsLD :: "Request \<Rightarrow> bool" where
  "acceptsLD req =
     list_ex (\<lambda>h. list_ex (\<lambda>accept. accept = ''application/ld+json'') (SplitComma h))
       (Header req ''Accept'')"

definition cacheKey :: "Globals \<Rightarrow> URL \<Rightarrow> string" where
  "cacheKey g u =
     (if tileCache g \<noteq> None \<and> Format u = FmtJPG \<and> W (Size u) > 0
         \<and> W (Size u) \<le> 1024 \<and> H (Size u) \<le> 1024
      then Path u else [])"

text \<open>\<open>req.Header.Get\<close>: the first value of the key, or the empty string.\<close>

definition HeaderGet :: "Request \<Rightarrow> string \<Rightarrow> string" where
  "HeaderGet req k = (case Header req k of [] \<Rightarrow> [] | v # vs \<Rightarrow> v)"

text \<open>\<open>getRequestURL\<close>: the scheme and the host the request was made to.\<close>

definition getRequestURL :: "Request \<Rightarrow> string \<times> string" where
  "getRequestURL req =
     (let host = HeaderGet req ''X-Forwarded-Host'';
          scheme = HeaderGet req ''X-Forwarded-Proto''
      in if host \<noteq> [] \<and> scheme \<noteq> [] then (scheme, host)
         else (if TLS req then ''https'' else ''http'', Host req))"

text \<open>\<open>strings.Replace(s, old, "", 1)\<close>: the first occurrence of \<open>old\<close> is cut out.\<close>

fun CutFirst :: "string \<Rightarrow> string \<Rightarrow> string" where
  "CutFirst [] old = []"
| "CutFirst (c # cs) old =
     (if take (length old) (c # cs) = old then drop (length old) (c # cs)
      else c # CutFirst cs old)"

fun idToPathLoop :: "(string \<Rightarrow> string \<times> error option) list \<Rightarrow> string \<Rightarrow> string option" where
  "idToPathLoop [] ident = None"
| "idToPathLoop (idtopath # rest) ident =
     (case idtopath ident of
        (fp, None) \<Rightarrow> Some fp
      | (fp, Some err) \<Rightarrow> idToPathLoop rest ident)"

definition getIIIFPath :: "ImageHandler \<Rightarrow> Env \<Rightarrow> string \<Rightarrow> string" where
  "getIIIFPath ih env ident =
     (case idToPathLoop (idToPathPlugins env) ident of
        Some fp \<Rightarrow> fp
      | None \<Rightarrow> TilePath ih @ ''/'' @ ident)"

definition newImageResError :: "error \<Rightarrow> HandlerError" where
  "newImageResError err =
     (if err = ErrDimensionsExceedLimits then NewError (Error err) 501
      else if err = ErrDoesNotExist then NewError ''image resource does not exist'' 404
      else NewError (Error err) 500)"

text \<open>
  The three sources of an info document. Each returns the package state it leaves;
  \<open>None\<close> is a panic inside \<open>buildInfo\<close>.
\<close>

definition loadInfoFromCache :: "ImageHandler \<Rightarrow> Globals \<Rightarrow> string \<Rightarrow> (Info option \<times> Globals) option" where
  "loadInfoFromCache ih g ident =
     (case infoCache g of
        None \<Rightarrow> Some (None, g)
      | Some cache \<Rightarrow>
          (let g1 = g\<lparr>InfoCacheGet := InfoCacheGet g + 1\<rparr>
           in case cache ident of
                None \<Rightarrow> Some (None, g1)
              | Some data \<Rightarrow>
                  (case buildInfo (Maximums ih) (FSInfo (FeatureSet ih)) data of
                     None \<Rightarrow> None
                   | Some info \<Rightarrow> Some (Some info, g1\<lparr>InfoCacheHit := InfoCacheHit g1 + 1\<rparr>))))"

definition loadInfoOverride :: "Env \<Rightarrow> string \<Rightarrow> Info option" where
  "loadInfoOverride env fp =
     (case ReadFile env (fp @ ''-info.json'') of
        (data, Some err) \<Rightarrow> None
      | (data, None) \<Rightarrow>
          (case Unmarshal env data of
             (info, Some err) \<Rightarrow> None
           | (info, None) \<Rightarrow> Some info))"

definition loadInfoFromImageResource ::
  "ImageHandler \<Rightarrow> Env \<Rightarrow> Globals \<Rightarrow> string \<Rightarrow> string
     \<Rightarrow> (Info option \<times> HandlerError option \<times> Globals) option" where
  "loadInfoFromImageResource ih env g ident fp =
     (case NewResource env ident fp of
        (res, Some err) \<Rightarrow> Some (None, Some (newImageResError err), g)
      | (res, None) \<Rightarrow>
          (let imageInfo = Decoder res;
               g1 = (case infoCache g of
                       None \<Rightarrow> g
                     | Some cache \<Rightarrow>
                         g\<lparr>InfoCacheSet := InfoCacheSet g + 1,
                           infoCache := Some (cache(ident \<mapsto> imageInfo))\<rparr>)
           in case buildInfo (Maximums ih) (FSInfo (FeatureSet ih)) imageInfo of
                None \<Rightarrow> None
              | Some info \<Rightarrow> Some (Some info, None, g1)))"

definition getInfo ::
  "ImageHandler \<Rightarrow> Env \<Rightarrow> Globals \<Rightarrow> string \<Rightarrow> string
     \<Rightarrow> (Info option \<times> HandlerError option \<times> Globals) option" where
  "getInfo ih env g ident fp =
     (case loadInfoFromCache ih g ident of
        None \<Rightarrow> None
      | Some (Some info, g1) \<Rightarrow> Some (Some info, None, g1)
      | Some (None, g1) \<Rightarrow>
          (case loadInfoOverride env fp of
             Some info \<Rightarrow> Some (Some info, None, g1)
           | None \<Rightarrow> loadInfoFromImageResource ih env g1 ident fp))"

definition isValidBasePath :: "ImageHandler \<Rightarrow> Env \<Rightarrow> Globals \<Rightarrow> string \<Rightarrow> (bool \<times> Globals) option" where
  "isValidBasePath ih env g path =
     (case NewURL env (path @ ''/info.json'') of
        (iiifURL, Some err) \<Rightarrow> Some (False, g)
      | (iiifURL, None) \<Rightarrow>
          (case getInfo ih env g (URL.ID iiifURL) (getIIIFPath ih env (URL.ID iiifURL)) of
             None \<Rightarrow> None
           | Some (info, e, g1) \<Rightarrow> Some (e = None, g1)))"

definition marshalInfo :: "Env \<Rightarrow> Info \<Rightarrow> string \<times> HandlerError option" where
  "marshalInfo env info =
     (case Marshal env info of
        (json, Some err) \<Rightarrow> ([], Some (NewError ''server error'' 500))
      | (json, None) \<Rightarrow> (json, None))"

text \<open>\<open>ImageHandler.Info\<close>: the reply to an info request.\<close>

definition InfoHandler :: "Env \<Rightarrow> ResponseWriter \<Rightarrow> Request \<Rightarrow> Info \<Rightarrow> ResponseWriter" where
  "InfoHandler env w req info =
     (case marshalInfo env info of
        (json, Some err) \<Rightarrow> http_Error w (Message err) (HCode err)
      | (json, None) \<Rightarrow>
          (let ct = (if acceptsLD req then ''application/ld+json'' else ''application/json'')
           in Write json
                (HeaderSet ''Access-Control-Allow-Origin'' ''*''
                   (HeaderSet ''Content-Type'' ct w))))"

text \<open>
  The constraint \<open>Command\<close> hands to \<open>Resource.Apply\<close>: the handler's maximums, or,
  when an info document came with the call, the maximums of its profile with every 0
  replaced.
\<close>

definition commandConstraint :: "ImageHandler \<Rightarrow> Info option \<Rightarrow> Constraint" where
  "commandConstraint ih info =
     (case info of
        None \<Rightarrow> Maximums ih
      | Some i \<Rightarrow>
          (let max0 = \<lparr>Constraint.Width = MaxWidth (Profile i),
                       Constraint.Height = MaxHeight (Profile i),
                       Area = MaxArea (Profile i)\<rparr>;
               max1 = (if Constraint.Width max0 = 0
                       then max0\<lparr>Constraint.Width := MaxInt32\<rparr> else max0);
               max2 = (if Constraint.Height max1 = 0
                       then max1\<lparr>Constraint.Height := MaxInt32\<rparr> else max1)
           in if Area max2 = 0 then max2\<lparr>Area := MaxInt64\<rparr> else max2))"

text \<open>
  \<open>tileCache.Get\<close>, and \<open>tileCache.Add\<close> after \<open>stats.TileCache.Set()\<close>. Both
  are called with a key of \<open>cacheKey\<close> that is not empty, so the cache is not nil
  there.
\<close>

definition tileCacheGet :: "string \<Rightarrow> Globals \<Rightarrow> string option" where
  "tileCacheGet key g = (case tileCache g of None \<Rightarrow> None | Some cache \<Rightarrow> cache key)"

definition tileCacheAdd :: "string \<Rightarrow> string \<Rightarrow> Globals \<Rightarrow> Globals" where
  "tileCacheAdd key data g =
     g\<lparr>TileCacheSet := TileCacheSet g + 1,
       tileCache := map_option (\<lambda>cache. cache(key \<mapsto> data)) (tileCache g)\<rparr>"

definition Command ::
  "ImageHandler \<Rightarrow> Env \<Rightarrow> Globals \<Rightarrow> ResponseWriter \<Rightarrow> Request \<Rightarrow> URL \<Rightarrow> Resource \<Rightarrow> Info option
     \<Rightarrow> Globals \<times> ResponseWriter" where
  "Command ih env g w req u res info =
     (case sendHeaders env w req (FilePath res) of
        (w1, Some err) \<Rightarrow> (g, w1)
      | (w1, None) \<Rightarrow>
          if \<not> Supported (FeatureSet ih) u then (g, http_Error w1 ''Feature not supported'' 501)
          else
            (case Apply env res u (commandConstraint ih info) of
               (img, Some err) \<Rightarrow>
                 (let e = newImageResError err in (g, http_Error w1 (Message e) (HCode e)))
             | (img, None) \<Rightarrow>
                 (let w2 = HeaderSet ''Content-Type'' (TypeByExtension env (''.'' @ Format u)) w1
                  in case EncodeImage env img (Format u) of
                       (cacheBuf, Some err) \<Rightarrow> (g, http_Error w2 ''Unable to encode'' 500)
                     | (cacheBuf, None) \<Rightarrow>
                         (let key = cacheKey g u;
                              g1 = (if key \<noteq> [] then tileCacheAdd key cacheBuf g else g)
                          in (g1, Write cacheBuf w2)))))"

text \<open>
  \<open>IIIFRoute\<close>. The message of the reply to an unparseable path quotes the path with
  \<open>%q\<close>; the quoting is written as plain double quotes.
\<close>

definition IIIFRoute ::
  "ImageHandler \<Rightarrow> Env \<Rightarrow> Globals \<Rightarrow> ResponseWriter \<Rightarrow> Request
     \<Rightarrow> (Globals \<times> ResponseWriter) option" where
  "IIIFRoute ih env g w req =
     (let (scheme, host) = (case BaseURL ih of
                              Some b \<Rightarrow> b
                            | None \<Rightarrow> getRequestURL req);
          path = CutFirst (URLPath req) (WebPathPrefix ih @ ''/'')
      in case NewURL env path of
           (iiifURL, Some err) \<Rightarrow>
             (case isValidBasePath ih env g path of
                None \<Rightarrow> None
              | Some (True, g1) \<Rightarrow>
                  Some (g1, http_Redirect w (URLString req @ ''/info.json'') 303)
              | Some (False, g1) \<Rightarrow>
                  Some (g1, http_Error w
                    (''Invalid IIIF request '' @ [CHR 0x22] @ Path iiifURL @ [CHR 0x22]
                       @ '': '' @ Error err) 400))
         | (iiifURL, None) \<Rightarrow>
             (let fp = getIIIFPath ih env (URL.ID iiifURL)
              in case getInfo ih env g (URL.ID iiifURL) fp of
                   None \<Rightarrow> None
                 | Some (info0, Some e, g1) \<Rightarrow> Some (g1, http_Error w (Message e) (HCode e))
                 | Some (None, None, g1) \<Rightarrow> None
                 | Some (Some info0, None, g1) \<Rightarrow>
                     (let info = info0\<lparr>Info.ID :=
                            URLText env scheme host (WebPathPrefix ih) @ ''/''
                              @ Escaped env (URL.ID iiifURL)\<rparr>
                      in if URL.Info iiifURL then Some (g1, InfoHandler env w req info)
                         else
                           (let key = cacheKey g1 iiifURL;
                                g2 = (if key \<noteq> []
                                      then g1\<lparr>TileCacheGet := TileCacheGet g1 + 1\<rparr> else g1);
                                hit = (if key \<noteq> [] then tileCacheGet key g1 else None)
                            in case hit of
                                 Some data \<Rightarrow>
                                   Some (g2\<lparr>TileCacheHit := TileCacheHit g2 + 1\<rparr>,
                                         Write data
                                           (HeaderSet ''Content-Type''
                                              (TypeByExtension env (''.'' @ Format iiifURL)) w))
                               | None \<Rightarrow>
                                   (case NewResource env (URL.ID iiifURL) fp of
                                      (res, Some err) \<Rightarrow>
                                        (let e = newImageResError err
                                         in Some (g2, http_Error w (Message e) (HCode e)))
                                    | (res, None) \<Rightarrow>
                                        if \<not> Valid env iiifURL
                                        then Some (g2, http_Error w
                                               (''Invalid IIIF request: '' @ Error (URLError env iiifURL))
                                               400)
                                        else Some (Command ih env g2 w req iiifURL res (Some info)))))))"

text \<open>
  \<open>NewImageHandler\<close>: a handler with no base URL and no limit on the output. The
  feature set \<open>iiif.AllFeatures()\<close> is the parameter \<open>allFeatures\<close>.
\<close>

definition NewImageHandler :: "FeatureSet \<Rightarrow> string \<Rightarrow> string \<Rightarrow> ImageHandler" where
  "NewImageHandler allFeatures tilePath basePath =
     \<lparr>BaseURL = None,
      WebPathPrefix = basePath,
      FeatureSet = allFeatures,
      TilePath = tilePath,
      Maximums = \<lparr>Constraint.Width = MaxInt32, Constraint.Height = MaxInt32, Area = MaxInt64\<rparr>\<rparr>"






section \<open>The JP2 stream bridge (src/openjpeg/image\_stream.go)\<close>

text \<open>
  \<open>io.ReadSeeker\<close>: the two methods, over the state \<open>'s\<close> of the reader. \<open>Read\<close>
  is given the length of the buffer and returns the bytes it put there (their number is
  Go's \<open>n\<close>) and the error; \<open>Seek\<close> returns the new offset and the error.
\<close>

datatype Whence = SeekStart | SeekCurrent | SeekEnd

record 's ReadSeeker =
  Read :: "'s \<Rightarrow> nat \<Rightarrow> (string \<times> error option) \<times> 's"
  Seek :: "'s \<Rightarrow> int \<Rightarrow> Whence \<Rightarrow> (int \<times> error option) \<times> 's"

text \<open>
  The failure values of the codec, \<open>0 - 1\<close> in the unsigned types, and
  \<open>OPJ_BOOL\<close>. \<open>C.OPJ_SIZE_T\<close> and \<open>C.OPJ_UINT64\<close> are 64-bit words;
  \<open>C.OPJ_OFF_T\<close> is a 64-bit word read as signed.
\<close>

definition opjMinusOne64 :: "64 word" where
  "opjMinusOne64 = 0 - 1"

definition opjMinusOneSizeT :: "64 word" where
  "opjMinusOneSizeT = 0 - 1"

definition OPJ_TRUE :: int where "OPJ_TRUE = 1"
definition OPJ_FALSE :: int where "OPJ_FALSE = 0"

text \<open>
  The registry \<open>imageStreams\<close> maps a stream id to its reader. The callbacks return
  the value for the codec and the registry with the reader moved on;
  \<open>opjStreamRead\<close> also returns the bytes put into the codec's buffer, whose length
  is \<open>numBytes\<close>.
\<close>

definition lookupStream :: "(64 word \<rightharpoonup> 's) \<Rightarrow> 64 word \<Rightarrow> 's option" where
  "lookupStream imageStreams ident = imageStreams ident"

definition opjStreamRead ::
  "'s ReadSeeker \<Rightarrow> (64 word \<rightharpoonup> 's) \<Rightarrow> 64 word \<Rightarrow> 64 word
     \<Rightarrow> 64 word \<times> string \<times> (64 word \<rightharpoonup> 's)" where
  "opjStreamRead io imageStreams numBytes streamID =
     (case lookupStream imageStreams streamID of
        None \<Rightarrow> (opjMinusOne64, [], imageStreams)
      | Some s \<Rightarrow>
          (case Read io s (unat numBytes) of
             ((data, Some err), s') \<Rightarrow> (opjMinusOne64, data, imageStreams(streamID \<mapsto> s'))
           | ((data, None), s') \<Rightarrow>
               (word_of_nat (length data), data, imageStreams(streamID \<mapsto> s'))))"

definition opjStreamSkip ::
  "'s ReadSeeker \<Rightarrow> (64 word \<rightharpoonup> 's) \<Rightarrow> 64 word \<Rightarrow> 64 word
     \<Rightarrow> 64 word \<times> (64 word \<rightharpoonup> 's)" where
  "opjStreamSkip io imageStreams numBytes streamID =
     (case lookupStream imageStreams streamID of
        None \<Rightarrow> (opjMinusOneSizeT, imageStreams)
      | Some s \<Rightarrow>
          (case Seek io s (sint numBytes) SeekCurrent of
             ((pos, Some err), s') \<Rightarrow> (opjMinusOneSizeT, imageStreams(streamID \<mapsto> s'))
           | ((pos, None), s') \<Rightarrow>
               (word_of_int (sint numBytes), imageStreams(streamID \<mapsto> s'))))"

definition opjStreamSeek ::
  "'s ReadSeeker \<Rightarrow> (64 word \<rightharpoonup> 's) \<Rightarrow> 64 word \<Rightarrow> 64 word
     \<Rightarrow> int \<times> (64 word \<rightharpoonup> 's)" where
  "opjStreamSeek io imageStreams offset streamID =
     (case lookupStream imageStreams streamID of
        None \<Rightarrow> (OPJ_FALSE, imageStreams)
      | Some s \<Rightarrow>
          (case Seek io s (sint offset) SeekStart of
             ((pos, Some err), s') \<Rightarrow> (OPJ_FALSE, imageStreams(streamID \<mapsto> s'))
           | ((pos, None), s') \<Rightarrow> (OPJ_TRUE, imageStreams(streamID \<mapsto> s'))))"

text \<open>
  The reader \<open>initializeStream\<close> registers is a \<open>bytes.Reader\<close>: the bytes and
  the offset of the next read. It serves the examples.
\<close>

definition bytesReader :: "(string \<times> int) ReadSeeker" where
  "bytesReader =
     \<lparr>Read = (\<lambda>(s, i) n.
        if i \<ge> int (length s) then (([], Some EOF), (s, i))
        else (let data = take n (drop (nat i) s)
              in ((data, None), (s, i + int (length data))))),
      Seek = (\<lambda>(s, i) offset whence.
        (let abs = (case whence of
                      SeekStart \<Rightarrow> offset
                    | SeekCurrent \<Rightarrow> i + offset
                    | SeekEnd \<Rightarrow> int (length s) + offset)
         in if abs < 0
            then ((0, Some (OtherError ''bytes.Reader.Seek: negative position'')), (s, i))
            else ((abs, None), (s, abs))))\<rparr>"


section \<open>The general-raster decoder (src/plugins/imagick-decoder/image.go)\<close>

text \<open>
  \<open>float64\<close> values are the rationals they denote. \<open>round64\<close> is the rounding of
  every arithmetic result to 53 significant bits, to nearest, ties to even;
  \<open>ilog2\<close> is the position of the leading bit and \<open>exponent\<close> the binary exponent
  of a positive value. The exponent range is not modelled: the quotients and products of
  64-bit integers stay well inside it. A division by zero and a conversion to \<open>int\<close>
  of a value beyond 64 bits are the result \<open>None\<close>: they give infinities, NaN or a
  value the Go specification leaves to the implementation.
\<close>

function ilog2 :: "int \<Rightarrow> int" where
  "ilog2 n = (if n < 2 then 0 else 1 + ilog2 (n div 2))"
  by pat_completeness auto
termination
  by (relation "measure nat") auto

declare ilog2.simps [simp del]

definition pow2 :: "int \<Rightarrow> rat" where
  "pow2 e = (if 0 \<le> e then 2 ^ nat e else 1 / 2 ^ nat (- e))"

definition exponent :: "rat \<Rightarrow> int" where
  "exponent x =
     (let (p, q) = quotient_of x;
          d = ilog2 p - ilog2 q
      in if pow2 d \<le> x then d else d - 1)"

definition roundEven :: "rat \<Rightarrow> int" where
  "roundEven q =
     (let f = \<lfloor>q\<rfloor>; r = q - of_int f
      in if r < 1 / 2 then f
         else if 1 / 2 < r then f + 1
         else if even f then f else f + 1)"

definition round64 :: "rat \<Rightarrow> rat" where
  "round64 x =
     (if x = 0 then 0
      else (let e = exponent \<bar>x\<bar> - 52
            in sgn x * of_int (roundEven (\<bar>x\<bar> / pow2 e)) * pow2 e))"

text \<open>
  The conversion \<open>float64(n)\<close>, the operators \<open>/\<close> and \<open>*\<close>, and the conversion
  \<open>int(x)\<close>, which discards the fraction.
\<close>

definition float64 :: "int \<Rightarrow> rat" where
  "float64 n = round64 (of_int n)"

definition fdiv :: "rat \<Rightarrow> rat \<Rightarrow> rat option" where
  "fdiv a b = (if b = 0 then None else Some (round64 (a / b)))"

definition fmul :: "rat \<Rightarrow> rat \<Rightarrow> rat" where
  "fmul a b = round64 (a * b)"

definition int_of_float :: "rat \<Rightarrow> int option" where
  "int_of_float x =
     (let t = (if 0 \<le> x then \<lfloor>x\<rfloor> else \<lceil>x\<rceil>)
      in if in_int64 t then Some t else None)"

text \<open>
  \<open>image.Rectangle\<close> with \<open>image.ZR\<close>, \<open>image.Rect\<close>, \<open>Dx\<close> and \<open>Dy\<close>, and
  the decoder's \<open>Image\<close>: the columns and rows of the loaded picture and the three
  decode settings. \<open>loadedImage\<close> is what \<open>NewImage\<close> returns for a file it could
  read.
\<close>

record Rectangle =
  MinX :: int
  MinY :: int
  MaxX :: int
  MaxY :: int

definition ZR :: Rectangle where
  "ZR = \<lparr>MinX = 0, MinY = 0, MaxX = 0, MaxY = 0\<rparr>"

definition Rect :: "int \<Rightarrow> int \<Rightarrow> int \<Rightarrow> int \<Rightarrow> Rectangle" where
  "Rect x0 y0 x1 y1 =
     \<lparr>MinX = min x0 x1, MinY = min y0 y1, MaxX = max x0 x1, MaxY = max y0 y1\<rparr>"

definition Dx :: "Rectangle \<Rightarrow> int" where
  "Dx r = MaxX r - MinX r"

definition Dy :: "Rectangle \<Rightarrow> int" where
  "Dy r = MaxY r - MinY r"

record Image =
  columns :: int
  rows :: int
  decodeWidth :: int
  decodeHeight :: int
  decodeArea :: Rectangle

definition loadedImage :: "int \<Rightarrow> int \<Rightarrow> Image" where
  "loadedImage c r =
     \<lparr>columns = c, rows = r, decodeWidth = 0, decodeHeight = 0, decodeArea = ZR\<rparr>"

definition SetResizeWH :: "int \<Rightarrow> int \<Rightarrow> Image \<Rightarrow> Image" where
  "SetResizeWH width height i = i\<lparr>decodeWidth := width, decodeHeight := height\<rparr>"

definition SetCrop :: "Rectangle \<Rightarrow> Image \<Rightarrow> Image" where
  "SetCrop r i = i\<lparr>decodeArea := r\<rparr>"

definition GetWidth :: "Image \<Rightarrow> int" where
  "GetWidth i = columns i"

definition GetHeight :: "Image \<Rightarrow> int" where
  "GetHeight i = rows i"

text \<open>
  \<open>DecodeImage\<close> up to the calls into the imaging library. \<open>matchAspect\<close> is its
  block for a width or height of 0 and \<open>DecodeImage_size\<close> returns the image with
  its decode area and output size settled; \<open>DecodeImage_calls\<close> adds whether
  \<open>doCrop\<close> is called (with the decode area) and whether \<open>doResize\<close> is called
  (with the output size).
\<close>

definition matchAspect :: "Image \<Rightarrow> Image option" where
  "matchAspect i =
     (if decodeWidth i = 0 \<or> decodeHeight i = 0 then
        (let srcW64 = float64 (Dx (decodeArea i));
             srcH64 = float64 (Dy (decodeArea i));
             h64 = float64 (decodeHeight i);
             w64 = float64 (decodeWidth i)
         in case (if w64 = 0
                  then (case fdiv h64 srcH64 of
                          None \<Rightarrow> None
                        | Some scale \<Rightarrow>
                            map_option (\<lambda>n. i\<lparr>decodeWidth := n\<rparr>)
                              (int_of_float (fmul scale srcW64)))
                  else Some i) of
              None \<Rightarrow> None
            | Some i1 \<Rightarrow>
                if h64 = 0
                then (case fdiv w64 srcW64 of
                        None \<Rightarrow> None
                      | Some scale \<Rightarrow>
                          map_option (\<lambda>n. i1\<lparr>decodeHeight := n\<rparr>)
                            (int_of_float (fmul scale srcH64)))
                else Some i1)
      else Some i)"

definition DecodeImage_size :: "Image \<Rightarrow> Image option" where
  "DecodeImage_size i =
     (let w = GetWidth i; h = GetHeight i;
          i1 = (if decodeArea i = ZR then i\<lparr>decodeArea := Rect 0 0 w h\<rparr> else i);
          i2 = (if decodeWidth i1 = 0 \<and> decodeHeight i1 = 0
                then i1\<lparr>decodeWidth := w, decodeHeight := h\<rparr> else i1)
      in matchAspect i2)"

definition cropCalled :: "Image \<Rightarrow> bool" where
  "cropCalled i = (decodeArea i \<noteq> Rect 0 0 (GetWidth i) (GetHeight i))"

definition resizeCalled :: "Image \<Rightarrow> bool" where
  "resizeCalled i =
     (decodeWidth i \<noteq> Dx (decodeArea i) \<or> decodeHeight i \<noteq> Dy (decodeArea i))"

definition DecodeImage_calls :: "Image \<Rightarrow> (Image \<times> bool \<times> bool) option" where
  "DecodeImage_calls i =
     map_option (\<lambda>i3. (i3, cropCalled i3, resizeCalled i3)) (DecodeImage_size i)"

section \<open>Values in the range of Go's integers\<close>

text \<open>
  Widths and heights are Go integers. The predicates say so of the metadata the info
  cache holds and of the metadata the decoders of \<open>img.NewResource\<close> report.
\<close>

definition int64_dims :: "ImageInfo \<Rightarrow> bool" where
  "int64_dims i = (in_int64 (ImageInfo.Width i) \<and> in_int64 (ImageInfo.Height i))"

definition int64_cache :: "Globals \<Rightarrow> bool" where
  "int64_cache g =
     (\<forall>cache ident i. infoCache g = Some cache \<longrightarrow> cache ident = Some i \<longrightarrow> int64_dims i)"

definition int64_decoders :: "Env \<Rightarrow> bool" where
  "int64_decoders env = (\<forall>ident fp. int64_dims (Decoder (fst (NewResource env ident fp))))"


section \<open>Inputs of the examples\<close>

text \<open>
  The image of the spec's scenarios: 6000 by 4000 pixels, five levels, tiles 1024 wide.
  \<open>emptyInfo\<close> is a document with nothing set.
\<close>

definition exampleImage :: ImageInfo where
  "exampleImage =
     \<lparr>ImageInfo.Width = 6000, ImageInfo.Height = 4000,
      TileWidth = 1024, TileHeight = 0, Levels = 5\<rparr>"

definition emptyInfo :: Info where
  "emptyInfo =
     \<lparr>Info.ID = [], Info.Width = 0, Info.Height = 0, Tiles = [],
      Profile = \<lparr>MaxArea = 0, MaxWidth = 0, MaxHeight = 0\<rparr>\<rparr>"

definition unlimited :: Constraint where
  "unlimited = \<lparr>Constraint.Width = MaxInt32, Constraint.Height = MaxInt32, Area = MaxInt64\<rparr>"

definition infoURL :: URL where
  "infoURL = \<lparr>Path = ''img1/info.json'', URL.ID = ''img1'', Info = True, Format = [],
               Size = \<lparr>W = 0, H = 0\<rparr>\<rparr>"

definition tileURL :: URL where
  "tileURL = \<lparr>Path = ''img1/full/512,/0/default.jpg'', URL.ID = ''img1'', Info = False,
               Format = ''jpg'', Size = \<lparr>W = 512, H = 0\<rparr>\<rparr>"

definition heightOnlyURL :: URL where
  "heightOnlyURL = \<lparr>Path = ''img1/full/,500/0/default.jpg'', URL.ID = ''img1'', Info = False,
               Format = ''jpg'', Size = \<lparr>W = 0, H = 500\<rparr>\<rparr>"

definition exampleNewURL :: "string \<Rightarrow> URL \<times> error option" where
  "exampleNewURL p =
     (if p = Path infoURL then (infoURL, None)
      else if p = Path tileURL then (tileURL, None)
      else if p = Path heightOnlyURL then (heightOnlyURL, None)
      else (\<lparr>Path = p, URL.ID = [], Info = False, Format = [], Size = \<lparr>W = 0, H = 0\<rparr>\<rparr>,
            Some (OtherError ''invalid IIIF path'')))"

definition exampleResource :: Resource where
  "exampleResource = \<lparr>FilePath = ''/var/img/img1'', Decoder = exampleImage\<rparr>"

definition allFeatures :: FeatureSet where
  "allFeatures = \<lparr>Supported = (\<lambda>u. True), FSInfo = emptyInfo\<rparr>"

definition exampleHandler :: ImageHandler where
  "exampleHandler = NewImageHandler allFeatures ''/var/img'' ''/iiif''"

definition exampleEnv :: Env where
  "exampleEnv =
     \<lparr>NewURL = exampleNewURL,
      Valid = (\<lambda>u. True),
      URLError = (\<lambda>u. OtherError ''invalid''),
      Escaped = (\<lambda>s. s),
      idToPathPlugins = [],
      ReadFile = (\<lambda>p. ([], Some (OtherError ''no such file''))),
      Unmarshal = (\<lambda>d. (emptyInfo, Some (OtherError ''no JSON''))),
      Marshal = (\<lambda>i. (''{}'', None)),
      NewResource = (\<lambda>ident fp. (exampleResource, None)),
      sendHeaders = (\<lambda>w req fp. (w, None)),
      Apply = (\<lambda>res u c. (''pixels'', None)),
      EncodeImage = (\<lambda>img f. (''encoded'', None)),
      TypeByExtension = (\<lambda>e. ''image/jpeg''),
      URLText = (\<lambda>scheme host p. scheme @ ''://'' @ host @ p)\<rparr>"

definition noCaches :: Globals where
  "noCaches =
     \<lparr>tileCache = None, infoCache = None,
      TileCacheGet = 0, TileCacheHit = 0, TileCacheSet = 0,
      InfoCacheGet = 0, InfoCacheHit = 0, InfoCacheSet = 0\<rparr>"

definition emptyCaches :: Globals where
  "emptyCaches = noCaches\<lparr>tileCache := Some Map.empty, infoCache := Some Map.empty\<rparr>"

definition exampleRequest :: "string list \<Rightarrow> string \<Rightarrow> Request" where
  "exampleRequest accept p =
     \<lparr>Header = (\<lambda>k. if k = ''Accept'' then accept else []),
      Host = ''example.org'', TLS = False, URLPath = p, URLString = p\<rparr>"


definition missingEnv :: Env where
  "missingEnv = exampleEnv\<lparr>NewResource := (\<lambda>ident fp. (exampleResource, Some ErrDoesNotExist))\<rparr>"


definition cachedInfo :: Globals where
  "cachedInfo = noCaches\<lparr>infoCache := Some [''img1'' \<mapsto> exampleImage]\<rparr>"

definition invalidEnv :: Env where
  "invalidEnv = exampleEnv\<lparr>Valid := (\<lambda>u. False)\<rparr>"

definition tooLargeEnv :: Env where
  "tooLargeEnv = exampleEnv\<lparr>Apply := (\<lambda>res u c. ([], Some ErrDimensionsExceedLimits))\<rparr>"

definition encodeFailEnv :: Env where
  "encodeFailEnv = exampleEnv\<lparr>EncodeImage := (\<lambda>img f. ([], Some (OtherError ''encoder failed'')))\<rparr>"

definition noFeatures :: ImageHandler where
  "noFeatures = exampleHandler\<lparr>FeatureSet := allFeatures\<lparr>Supported := (\<lambda>u. False)\<rparr>\<rparr>"


definition heightLimit :: Constraint where
  "heightLimit = \<lparr>Constraint.Width = 10000, Constraint.Height = 100, Area = MaxInt64\<rparr>"





definition exampleStreams :: "64 word \<rightharpoonup> (string \<times> int)" where
  "exampleStreams = [1 \<mapsto> (''abcdef'', 0), 2 \<mapsto> (''abc'', 3)]"


definition warmCaches :: Globals where
  "warmCaches = emptyCaches\<lparr>tileCache := Some [''img1/full/512,/0/default.jpg'' \<mapsto> ''cached'']\<rparr>"


section \<open>Suffix dispatch: results\<close>

lemma ExtScan_shape: "ExtScan cs seen = [] \<or> hd (ExtScan cs seen) = CHR ''.''"
  by (induction cs arbitrary: seen) auto

lemma Ext_shape: "Ext path = [] \<or> hd (Ext path) = CHR ''.''"
  unfolding Ext_def by (rule ExtScan_shape)

lemma Ext_never_jpeg: "Ext path \<noteq> ''jpeg''"
  using Ext_shape [of path] by auto

lemma decodeJP2_NotHandled:
  "Ext path \<noteq> ''.jp2'' \<Longrightarrow> decodeJP2 NewJP2Image path = Inl ErrNotHandled"
  by (simp add: decodeJP2_def)

lemma decodeJP2_attempts:
  "Ext path = ''.jp2'' \<Longrightarrow> decodeJP2 NewJP2Image path = NewJP2Image path"
  by (simp add: decodeJP2_def)

lemma decodeCommonFile_handled:
  "decodeCommonFile NewImage path =
     (if Ext path \<in> {''.tif'', ''.tiff'', ''.png'', ''.jpg'', ''.gif''}
      then NewImage path else Inl ErrNotHandled)"
  using Ext_never_jpeg [of path] by (auto simp: decodeCommonFile_def)

lemma Ext_photo_jpeg: "Ext ''photo.jpeg'' = ''.jpeg''"
  by (simp add: Ext_def)

text \<open>
  C10. Dispatch is by suffix, and \<open>decodeCommonFile\<close> is to attempt a decode for the
  extension \<open>.jpeg\<close>. The case list of the source holds \<open>"jpeg"\<close> without its dot, a
  string \<open>filepath.Ext\<close> never returns, so a path ending in \<open>.jpeg\<close> is declined:
  whatever \<open>NewImage\<close> would do, \<open>photo.jpeg\<close> gets \<open>ErrNotHandled\<close>, while
  \<open>photo.jpg\<close> reaches \<open>NewImage\<close>.
\<close>

theorem decodeCommonFile_jpeg_declined:
  "decodeCommonFile NewImage ''photo.jpeg'' = Inl ErrNotHandled
   \<and> decodeCommonFile NewImage ''photo.jpg'' = NewImage ''photo.jpg''"
  by (simp add: decodeCommonFile_def Ext_def)


section \<open>The info document: results\<close>



lemma int_div_lt16: 
  assumes s: "0 < (s::int)"
  shows "(a div s < 16) = (a < 16 * s)"
proof
  have eq: "s * (a div s) + a mod s = a" by simp
  have m: "a mod s < s" using s by simp
  assume "a div s < 16"
  then have "a div s \<le> 15" by simp
  then have "s * (a div s) \<le> s * 15" using s by (intro mult_left_mono) simp_all
  with eq m show "a < 16 * s" by linarith
next
  have eq: "s * (a div s) + a mod s = a" by simp
  have m: "0 \<le> a mod s" using s by simp
  assume lt: "a < 16 * s"
  show "a div s < 16"
  proof (rule ccontr)
    assume "\<not> a div s < 16"
    then have "16 \<le> a div s" by simp
    then have "s * 16 \<le> s * (a div s)" using s by (intro mult_left_mono) simp_all
    with eq m lt show False by linarith
  qed
qed

lemma go_quot_pos: "0 < s \<Longrightarrow> 0 \<le> a \<Longrightarrow> go_quot a s = a div s"
  by (cases "a = 0") (simp_all add: go_quot_def)

lemma go_quot_lt16: 
  assumes s: "0 < s" 
  shows "(go_quot a s < 16) = (a < 16 * s)"
proof (cases "0 \<le> a")
  case True
  with s show ?thesis by (simp add: go_quot_pos int_div_lt16)
next
  case False
  then have a: "a < 0" by simp
  have "go_quot a s = - (\<bar>a\<bar> div s)" using a s by (simp add: go_quot_def)
  moreover have "0 \<le> \<bar>a\<bar> div s" using s by (simp add: pos_imp_zdiv_nonneg_iff)
  moreover have "a < 16 * s" using a s by linarith
  ultimately show ?thesis by simp
qed

lemma go_quot_min16:
  "0 < s \<Longrightarrow> (go_quot wd s < 16 \<or> go_quot ht s < 16) = (go_quot (min wd ht) s < 16)"
  by (auto simp: go_quot_lt16 min_def)

lemma wrap64_id: "in_int64 x \<Longrightarrow> wrap64 x = x"
proof -
  assume "in_int64 x"
  then have "0 \<le> x + 2 ^ 63" and "x + 2 ^ 63 < 2 ^ 64"
    by (simp_all add: in_int64_def)
  then have "(x + 2 ^ 63) mod 2 ^ 64 = x + 2 ^ 63"
    by (rule mod_pos_pos_trivial)
  then show ?thesis by (simp add: wrap64_def)
qed




lemma scaleFactors_run:
  "in_int64 wd \<Longrightarrow> in_int64 ht \<Longrightarrow> 0 \<le> x \<Longrightarrow> scale = 2 ^ k \<Longrightarrow> sf = map (\<lambda>j. 2 ^ j) [0..<k] \<Longrightarrow>
     (\<forall>j<k. 16 * 2 ^ j \<le> min wd ht) \<Longrightarrow>
     \<exists>n. scaleFactors wd ht L x scale sf = Some (map (\<lambda>j. 2 ^ j) [0..<n])
       \<and> k \<le> n \<and> n - k \<le> nat (L - x)
       \<and> (\<forall>j<n. 16 * 2 ^ j \<le> min wd ht)
       \<and> (n - k = nat (L - x) \<or> min wd ht < 16 * 2 ^ n)"
proof (induction wd ht L x scale sf arbitrary: k rule: scaleFactors.induct)
  case (1 wd ht L x scale sf)
  have pos: "0 < scale" using "1.prems"(4) by simp
  show ?case
  proof (cases "x < L")
    case False
    then have "scaleFactors wd ht L x scale sf = Some sf"
      by (subst scaleFactors.simps) simp
    with False "1.prems"(5,6) show ?thesis
      by (intro exI [of _ k]) simp
  next
    case True
    show ?thesis
    proof (cases "min wd ht < 16 * scale")
      case True
      then have "go_quot wd scale < 16 \<or> go_quot ht scale < 16"
        using pos by (simp add: go_quot_lt16 min_def split: if_splits)
      with \<open>x < L\<close> pos have "scaleFactors wd ht L x scale sf = Some sf"
        by (subst scaleFactors.simps) auto
      with True "1.prems"(4,5,6) show ?thesis
        by (intro exI [of _ k]) simp
    next
      case False
      then have ge: "16 * scale \<le> min wd ht" by linarith
      then have nW: "\<not> go_quot wd scale < 16" and nH: "\<not> go_quot ht scale < 16"
        using pos by (simp_all add: go_quot_lt16)
      have "min wd ht < 2 ^ 63" using "1.prems"(1) by (simp add: in_int64_def min_def)
      with ge have "16 * scale < 2 ^ 63" by linarith
      then have "in_int64 (scale * 2)" using pos by (simp add: in_int64_def)
      then have "wrap64 (scale * 2) = scale * 2" by (rule wrap64_id)
      then have w: "wrap64 (scale * 2) = 2 ^ Suc k"
        using "1.prems"(4) by simp
      have step: "scaleFactors wd ht L x scale sf =
          scaleFactors wd ht L (x + 1) (wrap64 (scale * 2)) (sf @ [scale])"
        using \<open>x < L\<close> pos nW nH by (subst scaleFactors.simps) simp
      have sf': "sf @ [scale] = map (\<lambda>j. 2 ^ j) [0..<Suc k]"
        using "1.prems"(4,5) by simp
      have inv': "\<forall>j<Suc k. 16 * 2 ^ j \<le> min wd ht"
        using "1.prems"(4,6) ge by (simp add: less_Suc_eq)
      have nz: "scale \<noteq> 0" using pos by simp
      have x1: "0 \<le> x + 1" using "1.prems"(3) by simp
      note IH = "1.IH" [OF \<open>x < L\<close> nz nW nH "1.prems"(1,2) x1 w sf' inv']
      then obtain n where n:
        "scaleFactors wd ht L (x + 1) (wrap64 (scale * 2)) (sf @ [scale])
            = Some (map (\<lambda>j. 2 ^ j) [0..<n])"
        "Suc k \<le> n" "n - Suc k \<le> nat (L - (x + 1))"
        "\<forall>j<n. 16 * 2 ^ j \<le> min wd ht"
        "n - Suc k = nat (L - (x + 1)) \<or> min wd ht < 16 * 2 ^ n"
        by blast
      have "nat (L - x) = Suc (nat (L - (x + 1)))" using \<open>x < L\<close> by simp
      with n step show ?thesis
        by (intro exI [of _ n]) auto
    qed
  qed
qed



lemma scaleFactors_start:
  assumes "in_int64 wd" "in_int64 ht"
  shows "\<exists>n. scaleFactors wd ht L 0 1 [] = Some (map (\<lambda>j. 2 ^ j) [0..<n])
       \<and> n \<le> nat L
       \<and> (\<forall>j<n. 16 \<le> go_quot (min wd ht) (2 ^ j))
       \<and> (n = nat L \<or> go_quot (min wd ht) (2 ^ n) < 16)"
proof -
  have "\<exists>n. scaleFactors wd ht L 0 1 [] = Some (map (\<lambda>j. 2 ^ j) [0..<n])
       \<and> 0 \<le> n \<and> n - 0 \<le> nat (L - 0)
       \<and> (\<forall>j<n. 16 * 2 ^ j \<le> min wd ht)
       \<and> (n - 0 = nat (L - 0) \<or> min wd ht < 16 * 2 ^ n)"
    using assms by (intro scaleFactors_run [where k = 0]) simp_all
  then obtain n where n: "scaleFactors wd ht L 0 1 [] = Some (map (\<lambda>j. 2 ^ j) [0..<n])"
    "n \<le> nat L" "\<forall>j<n. 16 * 2 ^ j \<le> min wd ht" "n = nat L \<or> min wd ht < 16 * 2 ^ n"
    by auto
  have "\<forall>j<n. 16 \<le> go_quot (min wd ht) (2 ^ j)"
  proof (intro allI impI)
    fix j assume "j < n"
    with n(3) have "16 * 2 ^ j \<le> min wd ht" by simp
    moreover have "(go_quot (min wd ht) (2 ^ j) < 16) = (min wd ht < 16 * 2 ^ j)"
      by (rule go_quot_lt16) simp
    ultimately show "16 \<le> go_quot (min wd ht) (2 ^ j)" by linarith
  qed
  moreover have "(go_quot (min wd ht) (2 ^ n) < 16) = (min wd ht < 16 * 2 ^ n)"
    by (rule go_quot_lt16) simp
  ultimately show ?thesis using n by blast
qed

lemma setMaximums_dims:
  "Info.Width (setMaximums maxs i info) = Info.Width info"
  "Info.Height (setMaximums maxs i info) = Info.Height info"
  by (simp_all add: setMaximums_def)

lemma powers_of_two_increasing: "sorted_wrt (<) (map (\<lambda>j. (2::int) ^ j) [0..<n])"
  by (simp add: sorted_wrt_map sorted_wrt_iff_nth_less)

text \<open>
  C1. For image metadata with \<open>TileWidth > 0\<close> (width and height being Go integers),
  \<open>buildInfo\<close> returns a document with one tile size whose scale factors are
  \<open>2\<^sup>0, 2\<^sup>1, \<dots>, 2\<^bsup>n-1\<^esup>\<close>: consecutive powers of two from 1, hence strictly
  increasing. There are at most \<open>Levels\<close> of them, every one keeps
  \<open>min(W,H)/sf \<ge> 16\<close> in Go's integer division, and the list is maximal: it stops
  short of \<open>Levels\<close> entries only when the next power of two breaks that bound.
\<close>

theorem buildInfo_scaleFactors:
  assumes "in_int64 (ImageInfo.Width i)" and "in_int64 (ImageInfo.Height i)"
    and "TileWidth i > 0"
  shows "\<exists>n info. buildInfo maxs base i = Some info
     \<and> map ScaleFactors (Tiles info) = [map (\<lambda>j. 2 ^ j) [0..<n]]
     \<and> sorted_wrt (<) (concat (map ScaleFactors (Tiles info)))
     \<and> n \<le> nat (Levels i)
     \<and> (\<forall>j<n. 16 \<le> go_quot (min (ImageInfo.Width i) (ImageInfo.Height i)) (2 ^ j))
     \<and> (n = nat (Levels i)
         \<or> go_quot (min (ImageInfo.Width i) (ImageInfo.Height i)) (2 ^ n) < 16)"
proof -
  obtain n where n:
    "scaleFactors (ImageInfo.Width i) (ImageInfo.Height i) (Levels i) 0 1 []
       = Some (map (\<lambda>j. 2 ^ j) [0..<n])"
    "n \<le> nat (Levels i)"
    "\<forall>j<n. 16 \<le> go_quot (min (ImageInfo.Width i) (ImageInfo.Height i)) (2 ^ j)"
    "n = nat (Levels i) \<or> go_quot (min (ImageInfo.Width i) (ImageInfo.Height i)) (2 ^ n) < 16"
    using scaleFactors_start [OF assms(1,2), of "Levels i"] by blast
  have "\<exists>info. buildInfo maxs base i = Some info
      \<and> map ScaleFactors (Tiles info) = [map (\<lambda>j. 2 ^ j) [0..<n]]"
    using assms(3) n(1) by (simp add: buildInfo_def setTiles_def setMaximums_dims)
  then obtain info where info: "buildInfo maxs base i = Some info"
    "map ScaleFactors (Tiles info) = [map (\<lambda>j. 2 ^ j) [0..<n]]"
    by auto
  from info(2) have "sorted_wrt (<) (concat (map ScaleFactors (Tiles info)))"
    by (simp add: powers_of_two_increasing)
  with info n(2,3,4) show ?thesis
    by (intro exI [of _ n] exI [of _ info]) simp
qed

theorem buildInfo_scaleFactors_witness:
  "in_int64 (ImageInfo.Width exampleImage) \<and> in_int64 (ImageInfo.Height exampleImage)
   \<and> TileWidth exampleImage > 0
   \<and> (\<exists>n info. buildInfo unlimited emptyInfo exampleImage = Some info
     \<and> map ScaleFactors (Tiles info) = [map (\<lambda>j. 2 ^ j) [0..<n]]
     \<and> sorted_wrt (<) (concat (map ScaleFactors (Tiles info)))
     \<and> n \<le> nat (Levels exampleImage)
     \<and> (\<forall>j<n. 16 \<le> go_quot (min (ImageInfo.Width exampleImage)
                                   (ImageInfo.Height exampleImage)) (2 ^ j))
     \<and> (n = nat (Levels exampleImage)
         \<or> go_quot (min (ImageInfo.Width exampleImage)
                       (ImageInfo.Height exampleImage)) (2 ^ n) < 16))"
proof -
  have w: "in_int64 (ImageInfo.Width exampleImage)"
    and h: "in_int64 (ImageInfo.Height exampleImage)"
    and t: "TileWidth exampleImage > 0"
    by (simp_all add: exampleImage_def in_int64_def)
  from buildInfo_scaleFactors [OF w h t, of unlimited emptyInfo] w h t
  show ?thesis by blast
qed

text \<open>The spec's scenario: the document of the example image lists 1, 2, 4, 8, 16.\<close>

lemma buildInfo_exampleImage:
  "map_option (\<lambda>info. map ScaleFactors (Tiles info)) (buildInfo unlimited emptyInfo exampleImage)
     = Some [[1, 2, 4, 8, 16]]"
  by (simp add: buildInfo_def setTiles_def setMaximums_def exampleImage_def emptyInfo_def
      scaleFactors.simps go_quot_def wrap64_def)



section \<open>The handler: results\<close>

lemmas example_defs = infoURL_def tileURL_def heightOnlyURL_def exampleNewURL_def
  exampleResource_def allFeatures_def exampleHandler_def exampleEnv_def noCaches_def
  emptyCaches_def exampleRequest_def exampleImage_def emptyInfo_def NewImageHandler_def
  unlimited_def

lemmas handler_defs = IIIFRoute_def isValidBasePath_def getInfo_def loadInfoFromCache_def
  loadInfoOverride_def loadInfoFromImageResource_def getIIIFPath_def buildInfo_def
  setTiles_def setMaximums_def SmallerThanAny_def newImageResError_def NewError_def
  InfoHandler_def marshalInfo_def Command_def commandConstraint_def cacheKey_def
  tileCacheAdd_def tileCacheGet_def http_Error_def http_Redirect_def HeaderSet_def Write_def
  newResponse_def acceptsLD_def FmtJPG_def MaxInt32_def MaxInt64_def go_quot_def wrap64_def
  scaleFactors.simps getRequestURL_def HeaderGet_def

lemma int64_noCaches: "int64_cache noCaches" "int64_cache emptyCaches"
  by (simp_all add: int64_cache_def noCaches_def emptyCaches_def)

lemma int64_exampleEnv: "int64_decoders exampleEnv"
  by (simp add: int64_decoders_def int64_dims_def exampleEnv_def exampleResource_def
      exampleImage_def in_int64_def)

lemma int64_missingEnv: "int64_decoders missingEnv"
  by (simp add: int64_decoders_def int64_dims_def missingEnv_def exampleEnv_def exampleResource_def
      exampleImage_def in_int64_def)


lemma buildInfo_returns:
  assumes "int64_dims i"
  shows "\<exists>info. buildInfo maxs base i = Some info"
proof (cases "TileWidth i > 0")
  case True
  from assms have "in_int64 (ImageInfo.Width i)" "in_int64 (ImageInfo.Height i)"
    by (simp_all add: int64_dims_def)
  from scaleFactors_start [OF this, of "Levels i"] obtain sf where
    "scaleFactors (ImageInfo.Width i) (ImageInfo.Height i) (Levels i) 0 1 [] = Some sf"
    by blast
  then show ?thesis
    by (simp add: buildInfo_def setTiles_def setMaximums_dims)
next
  case False
  then show ?thesis by (simp add: buildInfo_def setTiles_def)
qed

lemma loadInfoFromCache_returns:
  assumes "int64_cache g"
  shows "\<exists>info g1. loadInfoFromCache ih g ident = Some (info, g1)"
proof (cases "infoCache g")
  case None
  then show ?thesis by (simp add: loadInfoFromCache_def)
next
  case (Some cache)
  show ?thesis
  proof (cases "cache ident")
    case None
    with Some show ?thesis by (simp add: loadInfoFromCache_def)
  next
    case (Some data)
    with \<open>infoCache g = Some cache\<close> assms have "int64_dims data"
      by (auto simp: int64_cache_def)
    from buildInfo_returns [OF this] obtain info where
      "buildInfo (Maximums ih) (FSInfo (FeatureSet ih)) data = Some info" by blast
    with Some \<open>infoCache g = Some cache\<close> show ?thesis
      by (simp add: loadInfoFromCache_def)
  qed
qed

lemma loadInfoFromImageResource_cases:
  assumes "int64_decoders env"
  shows "(\<exists>err. snd (NewResource env ident fp) = Some err
            \<and> loadInfoFromImageResource ih env g ident fp
                = Some (None, Some (newImageResError err), g))
       \<or> (snd (NewResource env ident fp) = None
            \<and> (\<exists>info g1. loadInfoFromImageResource ih env g ident fp = Some (Some info, None, g1)))"
proof (cases "NewResource env ident fp")
  case (Pair res e)
  show ?thesis
  proof (cases e)
    case (Some err)
    with Pair show ?thesis by (simp add: loadInfoFromImageResource_def)
  next
    case None
    from assms have "int64_dims (Decoder (fst (NewResource env ident fp)))"
      by (simp add: int64_decoders_def)
    with Pair have "int64_dims (Decoder res)" by simp
    from buildInfo_returns [OF this] obtain info where
      "buildInfo (Maximums ih) (FSInfo (FeatureSet ih)) (Decoder res) = Some info" by blast
    with Pair None show ?thesis
      by (simp add: loadInfoFromImageResource_def Let_def)
  qed
qed

text \<open>
  \<open>getInfo\<close> returns: a document, or the error \<open>newImageResError\<close> makes of the
  error of \<open>img.NewResource\<close>.
\<close>

lemma getInfo_cases:
  assumes "int64_cache g" and "int64_decoders env"
  shows "(\<exists>info g1. getInfo ih env g ident fp = Some (Some info, None, g1))
       \<or> (\<exists>err g1. snd (NewResource env ident fp) = Some err
             \<and> getInfo ih env g ident fp = Some (None, Some (newImageResError err), g1))"
proof -
  from loadInfoFromCache_returns [OF assms(1)] obtain c g1 where
    c: "loadInfoFromCache ih g ident = Some (c, g1)" by blast
  show ?thesis
  proof (cases c)
    case (Some info)
    with c show ?thesis by (simp add: getInfo_def)
  next
    case None
    show ?thesis
    proof (cases "loadInfoOverride env fp")
      case (Some info)
      with c None show ?thesis by (simp add: getInfo_def)
    next
      case ov: None
      from loadInfoFromImageResource_cases [OF assms(2), of ident fp ih g1]
      show ?thesis using c None ov by (auto simp: getInfo_def)
    qed
  qed
qed

lemma http_Error_Code [simp]: "Code (http_Error w msg code) = code"
  by (simp add: http_Error_def HeaderSet_def)

lemma http_Error_RedirectTo [simp]: "RedirectTo (http_Error w msg code) = RedirectTo w"
  by (simp add: http_Error_def HeaderSet_def)

lemma http_Redirect_fields [simp]:
  "Code (http_Redirect w target code) = code"
  "RedirectTo (http_Redirect w target code) = Some target"
  by (simp_all add: http_Redirect_def)

lemma isValidBasePath_cases:
  assumes "int64_cache g" and "int64_decoders env"
  shows "\<exists>g1. isValidBasePath ih env g path =
     Some (snd (NewURL env (path @ ''/info.json'')) = None
           \<and> (\<exists>info g2. getInfo ih env g (URL.ID (fst (NewURL env (path @ ''/info.json''))))
                 (getIIIFPath ih env (URL.ID (fst (NewURL env (path @ ''/info.json'')))))
                = Some (info, None, g2)), g1)"
proof (cases "NewURL env (path @ ''/info.json'')")
  case (Pair u e)
  show ?thesis
  proof (cases e)
    case (Some err)
    with Pair show ?thesis by (simp add: isValidBasePath_def)
  next
    case None
    from getInfo_cases [OF assms, of ih "URL.ID u" "getIIIFPath ih env (URL.ID u)"]
    show ?thesis using Pair None
      by (auto simp: isValidBasePath_def)
  qed
qed

lemma IIIFRoute_unparsed:
  assumes "NewURL env (CutFirst (URLPath req) (WebPathPrefix ih @ ''/'')) = (u0, Some err)"
    and "isValidBasePath ih env g (CutFirst (URLPath req) (WebPathPrefix ih @ ''/'')) = Some (ok, g1)"
  shows "\<exists>w'. IIIFRoute ih env g w req = Some (g1, w')
     \<and> (if ok then Code w' = 303 \<and> RedirectTo w' = Some (URLString req @ ''/info.json'')
         else Code w' = 400 \<and> RedirectTo w' = RedirectTo w)"
  using assms by (cases ok) (simp_all add: IIIFRoute_def Let_def split: prod.split)


lemma newImageResError_code:
  "HCode (newImageResError err) =
     (if err = ErrDimensionsExceedLimits then 501 else if err = ErrDoesNotExist then 404 else 500)"
  by (simp add: newImageResError_def NewError_def)

lemma Command_unsupported:
  assumes "snd (sendHeaders env w req (FilePath res)) = None"
    and "\<not> Supported (FeatureSet ih) u"
  shows "fst (Command ih env g w req u res info) = g"
    and "Code (snd (Command ih env g w req u res info)) = 501"
  using assms by (auto simp: Command_def split: prod.split option.split)

lemma Command_apply_error:
  assumes "snd (sendHeaders env w req (FilePath res)) = None"
    and "Supported (FeatureSet ih) u"
    and "snd (Apply env res u (commandConstraint ih info)) = Some err"
  shows "fst (Command ih env g w req u res info) = g"
    and "Code (snd (Command ih env g w req u res info)) = HCode (newImageResError err)"
  using assms by (auto simp: Command_def Let_def split: prod.split option.split)

lemma Command_encode_error:
  assumes "snd (sendHeaders env w req (FilePath res)) = None"
    and "Supported (FeatureSet ih) u"
    and "Apply env res u (commandConstraint ih info) = (img, None)"
    and "snd (EncodeImage env img (Format u)) = Some err"
  shows "fst (Command ih env g w req u res info) = g"
    and "Code (snd (Command ih env g w req u res info)) = 500"
  using assms by (auto simp: Command_def Let_def split: prod.split option.split)

lemma Command_served:
  assumes "sendHeaders env w req (FilePath res) = (w1, None)"
    and "Supported (FeatureSet ih) u"
    and "Apply env res u (commandConstraint ih info) = (img, None)"
    and "EncodeImage env img (Format u) = (buf, None)"
  shows "Command ih env g w req u res info =
     (if cacheKey g u \<noteq> [] then tileCacheAdd (cacheKey g u) buf g else g,
      Write buf (HeaderSet ''Content-Type'' (TypeByExtension env (''.'' @ Format u)) w1))"
  using assms by (simp add: Command_def Let_def)

lemma IIIFRoute_info_error:
  assumes "NewURL env (CutFirst (URLPath req) (WebPathPrefix ih @ ''/'')) = (u, None)"
    and "getInfo ih env g (URL.ID u) (getIIIFPath ih env (URL.ID u)) = Some (i0, Some e, g1)"
  shows "\<exists>w'. IIIFRoute ih env g w req = Some (g1, w') \<and> Code w' = HCode e"
  using assms by (cases i0) (simp_all add: IIIFRoute_def Let_def split: prod.split)

lemma IIIFRoute_resource_error:
  assumes "NewURL env (CutFirst (URLPath req) (WebPathPrefix ih @ ''/'')) = (u, None)"
    and "getInfo ih env g (URL.ID u) (getIIIFPath ih env (URL.ID u)) = Some (Some i0, None, g1)"
    and "\<not> URL.Info u"
    and "cacheKey g1 u = [] \<or> tileCacheGet (cacheKey g1 u) g1 = None"
    and "snd (NewResource env (URL.ID u) (getIIIFPath ih env (URL.ID u))) = Some err"
  shows "\<exists>g' w'. IIIFRoute ih env g w req = Some (g', w') \<and> Code w' = HCode (newImageResError err)"
  using assms by (auto simp: IIIFRoute_def Let_def split: prod.split)

lemma IIIFRoute_invalid:
  assumes "NewURL env (CutFirst (URLPath req) (WebPathPrefix ih @ ''/'')) = (u, None)"
    and "getInfo ih env g (URL.ID u) (getIIIFPath ih env (URL.ID u)) = Some (Some i0, None, g1)"
    and "\<not> URL.Info u"
    and "cacheKey g1 u = [] \<or> tileCacheGet (cacheKey g1 u) g1 = None"
    and "snd (NewResource env (URL.ID u) (getIIIFPath ih env (URL.ID u))) = None"
    and "\<not> Valid env u"
  shows "\<exists>g' w'. IIIFRoute ih env g w req = Some (g', w') \<and> Code w' = 400"
  using assms by (auto simp: IIIFRoute_def Let_def split: prod.split)

lemma IIIFRoute_command:
  assumes "NewURL env (CutFirst (URLPath req) (WebPathPrefix ih @ ''/'')) = (u, None)"
    and "getInfo ih env g (URL.ID u) (getIIIFPath ih env (URL.ID u)) = Some (Some i0, None, g1)"
    and "\<not> URL.Info u"
    and "cacheKey g1 u = [] \<or> tileCacheGet (cacheKey g1 u) g1 = None"
    and "NewResource env (URL.ID u) (getIIIFPath ih env (URL.ID u)) = (res, None)"
    and "Valid env u"
    and "sh = (case BaseURL ih of None \<Rightarrow> getRequestURL req | Some b \<Rightarrow> b)"
  shows "IIIFRoute ih env g w req =
     Some (Command ih env
             (if cacheKey g1 u \<noteq> [] then g1\<lparr>TileCacheGet := TileCacheGet g1 + 1\<rparr> else g1)
             w req u res
             (Some (i0\<lparr>Info.ID := URLText env (fst sh) (snd sh) (WebPathPrefix ih) @ ''/''
                                  @ Escaped env (URL.ID u)\<rparr>)))"
  using assms by (auto simp: IIIFRoute_def Let_def split: prod.split)

text \<open>
  C4. A request path that \<open>iiif.NewURL\<close> rejects is answered with 303 and the
  redirect target \<open>req.URL.String() + "/info.json"\<close> when the path with
  \<open>/info.json\<close> appended parses and the info of its identifier loads without error;
  otherwise it is answered with 400 and no redirect.
\<close>

theorem IIIFRoute_base_uri:
  assumes "int64_cache g" and "int64_decoders env"
    and "path = CutFirst (URLPath req) (WebPathPrefix ih @ ''/'')"
    and "snd (NewURL env path) \<noteq> None"
  shows "\<exists>g' w'. IIIFRoute ih env g w req = Some (g', w')
     \<and> (if snd (NewURL env (path @ ''/info.json'')) = None
           \<and> (\<exists>info g2. getInfo ih env g (URL.ID (fst (NewURL env (path @ ''/info.json''))))
                 (getIIIFPath ih env (URL.ID (fst (NewURL env (path @ ''/info.json'')))))
                = Some (info, None, g2))
         then Code w' = 303 \<and> RedirectTo w' = Some (URLString req @ ''/info.json'')
         else Code w' = 400 \<and> RedirectTo w' = RedirectTo w)"
proof -
  from assms(4) obtain u0 err where p: "NewURL env path = (u0, Some err)"
    by (cases "NewURL env path") auto
  from isValidBasePath_cases [OF assms(1,2), of ih path] obtain g1 where
    v: "isValidBasePath ih env g path =
     Some (snd (NewURL env (path @ ''/info.json'')) = None
           \<and> (\<exists>info g2. getInfo ih env g (URL.ID (fst (NewURL env (path @ ''/info.json''))))
                 (getIIIFPath ih env (URL.ID (fst (NewURL env (path @ ''/info.json'')))))
                = Some (info, None, g2)), g1)" by blast
  from IIIFRoute_unparsed [OF p [unfolded assms(3)] v [unfolded assms(3)], of w]
  show ?thesis unfolding assms(3) by blast
qed

theorem IIIFRoute_base_uri_witness:
  "snd (NewURL exampleEnv ''img1'') \<noteq> None
   \<and> (\<exists>g' w'. IIIFRoute exampleHandler exampleEnv noCaches newResponse
                  (exampleRequest [] ''/iiif/img1'') = Some (g', w')
         \<and> Code w' = 303 \<and> RedirectTo w' = Some ''/iiif/img1/info.json'')
   \<and> snd (NewURL missingEnv ''img1'') \<noteq> None
   \<and> (\<exists>g' w'. IIIFRoute exampleHandler missingEnv noCaches newResponse
                  (exampleRequest [] ''/iiif/img1'') = Some (g', w')
         \<and> Code w' = 400 \<and> RedirectTo w' = None)"
proof -
  have p: "''img1'' = CutFirst (URLPath (exampleRequest [] ''/iiif/img1''))
                        (WebPathPrefix exampleHandler @ ''/'')"
    by (simp add: example_defs)
  have q1: "snd (NewURL exampleEnv ''img1'') \<noteq> None"
    and q2: "snd (NewURL missingEnv ''img1'') \<noteq> None"
    by (simp_all add: missingEnv_def example_defs)
  have c1: "snd (NewURL exampleEnv (''img1'' @ ''/info.json'')) = None
     \<and> (\<exists>info g2. getInfo exampleHandler exampleEnv noCaches
            (URL.ID (fst (NewURL exampleEnv (''img1'' @ ''/info.json''))))
            (getIIIFPath exampleHandler exampleEnv
               (URL.ID (fst (NewURL exampleEnv (''img1'' @ ''/info.json'')))))
          = Some (info, None, g2))"
    by (simp add: example_defs handler_defs)
  have c2: "\<not> (snd (NewURL missingEnv (''img1'' @ ''/info.json'')) = None
     \<and> (\<exists>info g2. getInfo exampleHandler missingEnv noCaches
            (URL.ID (fst (NewURL missingEnv (''img1'' @ ''/info.json''))))
            (getIIIFPath exampleHandler missingEnv
               (URL.ID (fst (NewURL missingEnv (''img1'' @ ''/info.json'')))))
          = Some (info, None, g2)))"
    by (simp add: missingEnv_def example_defs handler_defs)
  have r: "RedirectTo newResponse = None" by (simp add: newResponse_def)
  have u: "URLString (exampleRequest [] ''/iiif/img1'') @ ''/info.json'' = ''/iiif/img1/info.json''"
    by (simp add: exampleRequest_def)
  from IIIFRoute_base_uri [OF int64_noCaches(1) int64_exampleEnv p q1, of newResponse]
  have a: "\<exists>g' w'. IIIFRoute exampleHandler exampleEnv noCaches newResponse
                  (exampleRequest [] ''/iiif/img1'') = Some (g', w')
         \<and> Code w' = 303 \<and> RedirectTo w' = Some ''/iiif/img1/info.json''"
    unfolding if_P [OF c1] u .
  from IIIFRoute_base_uri [OF int64_noCaches(1) int64_missingEnv p q2, of newResponse]
  have b: "\<exists>g' w'. IIIFRoute exampleHandler missingEnv noCaches newResponse
                  (exampleRequest [] ''/iiif/img1'') = Some (g', w')
         \<and> Code w' = 400 \<and> RedirectTo w' = None"
    unfolding if_not_P [OF c2] r .
  from q1 q2 a b show ?thesis by blast
qed

lemmas variant_defs = cachedInfo_def invalidEnv_def tooLargeEnv_def encodeFailEnv_def
  noFeatures_def missingEnv_def

lemma int64_cachedInfo: "int64_cache cachedInfo"
  by (simp add: int64_cache_def int64_dims_def cachedInfo_def noCaches_def exampleImage_def
      in_int64_def split: if_splits)

lemma int64_invalidEnv: "int64_decoders invalidEnv"
  by (simp add: int64_decoders_def int64_dims_def invalidEnv_def exampleEnv_def exampleResource_def
      exampleImage_def in_int64_def)


text \<open>
  C3. The statuses of the handler, for metadata in the range of Go's integers. A path
  \<open>iiif.NewURL\<close> rejects and that is no base URI request gets 400, as does a parsed
  command URL that is not valid once its resource is open. An error of
  \<open>img.NewResource\<close>, met while the info is loaded or when the command opens the
  image, gets 404 when it is \<open>ErrDoesNotExist\<close>, 501 when it is
  \<open>ErrDimensionsExceedLimits\<close> and 500 otherwise. In \<open>Command\<close>, a request the
  feature set does not support gets 501, an error of \<open>Resource.Apply\<close> is mapped the
  same way (501 for dimensions beyond the constraint, 500 for other failures), and a
  failure to encode gets 500.
\<close>

theorem status_codes:
  assumes "int64_cache g" and "int64_decoders env"
    and "path = CutFirst (URLPath req) (WebPathPrefix ih @ ''/'')"
  shows
   "(snd (NewURL env path) \<noteq> None
      \<and> \<not> (snd (NewURL env (path @ ''/info.json'')) = None
           \<and> (\<exists>info g2. getInfo ih env g (URL.ID (fst (NewURL env (path @ ''/info.json''))))
                 (getIIIFPath ih env (URL.ID (fst (NewURL env (path @ ''/info.json'')))))
                = Some (info, None, g2)))
      \<longrightarrow> (\<exists>g' w'. IIIFRoute ih env g w req = Some (g', w') \<and> Code w' = 400))
    \<and> (NewURL env path = (u, None)
        \<and> getInfo ih env g (URL.ID u) (getIIIFPath ih env (URL.ID u)) = Some (i0, Some e, g1)
      \<longrightarrow> (\<exists>err w'. snd (NewResource env (URL.ID u) (getIIIFPath ih env (URL.ID u))) = Some err
            \<and> IIIFRoute ih env g w req = Some (g1, w')
            \<and> Code w' = (if err = ErrDimensionsExceedLimits then 501
                          else if err = ErrDoesNotExist then 404 else 500)))
    \<and> (NewURL env path = (u, None)
        \<and> getInfo ih env g (URL.ID u) (getIIIFPath ih env (URL.ID u)) = Some (Some i1, None, g1)
        \<and> \<not> URL.Info u
        \<and> (cacheKey g1 u = [] \<or> tileCacheGet (cacheKey g1 u) g1 = None)
        \<and> snd (NewResource env (URL.ID u) (getIIIFPath ih env (URL.ID u))) = Some err
      \<longrightarrow> (\<exists>g' w'. IIIFRoute ih env g w req = Some (g', w')
            \<and> Code w' = (if err = ErrDimensionsExceedLimits then 501
                          else if err = ErrDoesNotExist then 404 else 500)))
    \<and> (NewURL env path = (u, None)
        \<and> getInfo ih env g (URL.ID u) (getIIIFPath ih env (URL.ID u)) = Some (Some i1, None, g1)
        \<and> \<not> URL.Info u
        \<and> (cacheKey g1 u = [] \<or> tileCacheGet (cacheKey g1 u) g1 = None)
        \<and> snd (NewResource env (URL.ID u) (getIIIFPath ih env (URL.ID u))) = None
        \<and> \<not> Valid env u
      \<longrightarrow> (\<exists>g' w'. IIIFRoute ih env g w req = Some (g', w') \<and> Code w' = 400))
    \<and> (snd (sendHeaders env w req (FilePath res)) = None
        \<and> \<not> Supported (FeatureSet ih) u
      \<longrightarrow> Code (snd (Command ih env g w req u res info)) = 501)
    \<and> (snd (sendHeaders env w req (FilePath res)) = None
        \<and> Supported (FeatureSet ih) u
        \<and> snd (Apply env res u (commandConstraint ih info)) = Some aerr
      \<longrightarrow> Code (snd (Command ih env g w req u res info))
            = (if aerr = ErrDimensionsExceedLimits then 501
               else if aerr = ErrDoesNotExist then 404 else 500))
    \<and> (snd (sendHeaders env w req (FilePath res)) = None
        \<and> Supported (FeatureSet ih) u
        \<and> snd (Apply env res u (commandConstraint ih info)) = None
        \<and> snd (EncodeImage env (fst (Apply env res u (commandConstraint ih info))) (Format u)) = Some eerr
      \<longrightarrow> Code (snd (Command ih env g w req u res info)) = 500)"
proof (intro conjI impI)
  assume a: "snd (NewURL env path) \<noteq> None
      \<and> \<not> (snd (NewURL env (path @ ''/info.json'')) = None
           \<and> (\<exists>info g2. getInfo ih env g (URL.ID (fst (NewURL env (path @ ''/info.json''))))
                 (getIIIFPath ih env (URL.ID (fst (NewURL env (path @ ''/info.json'')))))
                = Some (info, None, g2)))"
  then have p: "snd (NewURL env path) \<noteq> None" by blast
  from IIIFRoute_base_uri [OF assms(1,2,3) p, of w] obtain g' w' where
    r: "IIIFRoute ih env g w req = Some (g', w')"
    and c: "if snd (NewURL env (path @ ''/info.json'')) = None
           \<and> (\<exists>info g2. getInfo ih env g (URL.ID (fst (NewURL env (path @ ''/info.json''))))
                 (getIIIFPath ih env (URL.ID (fst (NewURL env (path @ ''/info.json'')))))
                = Some (info, None, g2))
         then Code w' = 303 \<and> RedirectTo w' = Some (URLString req @ ''/info.json'')
         else Code w' = 400 \<and> RedirectTo w' = RedirectTo w"
    by blast
  from a have n: "\<not> (snd (NewURL env (path @ ''/info.json'')) = None
           \<and> (\<exists>info g2. getInfo ih env g (URL.ID (fst (NewURL env (path @ ''/info.json''))))
                 (getIIIFPath ih env (URL.ID (fst (NewURL env (path @ ''/info.json'')))))
                = Some (info, None, g2)))" by blast
  from c have "Code w' = 400" unfolding if_not_P [OF n] by simp
  with r show "\<exists>g' w'. IIIFRoute ih env g w req = Some (g', w') \<and> Code w' = 400" by blast
next
  assume a: "NewURL env path = (u, None)
        \<and> getInfo ih env g (URL.ID u) (getIIIFPath ih env (URL.ID u)) = Some (i0, Some e, g1)"
  from getInfo_cases [OF assms(1,2), of ih "URL.ID u" "getIIIFPath ih env (URL.ID u)"] a
  obtain err where err: "snd (NewResource env (URL.ID u) (getIIIFPath ih env (URL.ID u))) = Some err"
    and e: "e = newImageResError err" by auto
  from a have "NewURL env (CutFirst (URLPath req) (WebPathPrefix ih @ ''/'')) = (u, None)"
    and "getInfo ih env g (URL.ID u) (getIIIFPath ih env (URL.ID u)) = Some (i0, Some e, g1)"
    by (simp_all add: assms(3))
  from IIIFRoute_info_error [OF this, of w] obtain w' where
    "IIIFRoute ih env g w req = Some (g1, w')" "Code w' = HCode e" by blast
  with err e show "\<exists>err w'. snd (NewResource env (URL.ID u) (getIIIFPath ih env (URL.ID u))) = Some err
            \<and> IIIFRoute ih env g w req = Some (g1, w')
            \<and> Code w' = (if err = ErrDimensionsExceedLimits then 501
                          else if err = ErrDoesNotExist then 404 else 500)"
    by (auto simp: newImageResError_code)
next
  assume a: "NewURL env path = (u, None)
        \<and> getInfo ih env g (URL.ID u) (getIIIFPath ih env (URL.ID u)) = Some (Some i1, None, g1)
        \<and> \<not> URL.Info u
        \<and> (cacheKey g1 u = [] \<or> tileCacheGet (cacheKey g1 u) g1 = None)
        \<and> snd (NewResource env (URL.ID u) (getIIIFPath ih env (URL.ID u))) = Some err"
  then have "NewURL env (CutFirst (URLPath req) (WebPathPrefix ih @ ''/'')) = (u, None)"
    and "getInfo ih env g (URL.ID u) (getIIIFPath ih env (URL.ID u)) = Some (Some i1, None, g1)"
    and "\<not> URL.Info u"
    and "cacheKey g1 u = [] \<or> tileCacheGet (cacheKey g1 u) g1 = None"
    and "snd (NewResource env (URL.ID u) (getIIIFPath ih env (URL.ID u))) = Some err"
    by (simp_all add: assms(3))
  from IIIFRoute_resource_error [OF this, of w]
  show "\<exists>g' w'. IIIFRoute ih env g w req = Some (g', w')
            \<and> Code w' = (if err = ErrDimensionsExceedLimits then 501
                          else if err = ErrDoesNotExist then 404 else 500)"
    by (simp add: newImageResError_code)
next
  assume a: "NewURL env path = (u, None)
        \<and> getInfo ih env g (URL.ID u) (getIIIFPath ih env (URL.ID u)) = Some (Some i1, None, g1)
        \<and> \<not> URL.Info u
        \<and> (cacheKey g1 u = [] \<or> tileCacheGet (cacheKey g1 u) g1 = None)
        \<and> snd (NewResource env (URL.ID u) (getIIIFPath ih env (URL.ID u))) = None
        \<and> \<not> Valid env u"
  then have "NewURL env (CutFirst (URLPath req) (WebPathPrefix ih @ ''/'')) = (u, None)"
    and "getInfo ih env g (URL.ID u) (getIIIFPath ih env (URL.ID u)) = Some (Some i1, None, g1)"
    and "\<not> URL.Info u"
    and "cacheKey g1 u = [] \<or> tileCacheGet (cacheKey g1 u) g1 = None"
    and "snd (NewResource env (URL.ID u) (getIIIFPath ih env (URL.ID u))) = None"
    and "\<not> Valid env u"
    by (simp_all add: assms(3))
  from IIIFRoute_invalid [OF this, of w]
  show "\<exists>g' w'. IIIFRoute ih env g w req = Some (g', w') \<and> Code w' = 400" .
next
  assume "snd (sendHeaders env w req (FilePath res)) = None \<and> \<not> Supported (FeatureSet ih) u"
  then show "Code (snd (Command ih env g w req u res info)) = 501"
    by (simp add: Command_unsupported)
next
  assume "snd (sendHeaders env w req (FilePath res)) = None
        \<and> Supported (FeatureSet ih) u
        \<and> snd (Apply env res u (commandConstraint ih info)) = Some aerr"
  then show "Code (snd (Command ih env g w req u res info))
            = (if aerr = ErrDimensionsExceedLimits then 501
               else if aerr = ErrDoesNotExist then 404 else 500)"
    by (simp add: Command_apply_error newImageResError_code)
next
  assume a: "snd (sendHeaders env w req (FilePath res)) = None
        \<and> Supported (FeatureSet ih) u
        \<and> snd (Apply env res u (commandConstraint ih info)) = None
        \<and> snd (EncodeImage env (fst (Apply env res u (commandConstraint ih info))) (Format u)) = Some eerr"
  then have "Apply env res u (commandConstraint ih info)
      = (fst (Apply env res u (commandConstraint ih info)), None)"
    by (metis prod.collapse)
  with a show "Code (snd (Command ih env g w req u res info)) = 500"
    using Command_encode_error(2) by blast
qed

theorem status_codes_witness:
  "(\<exists>g' w'. IIIFRoute exampleHandler missingEnv noCaches newResponse
        (exampleRequest [] ''/iiif/img1'') = Some (g', w') \<and> Code w' = 400)
   \<and> (\<exists>g' w'. IIIFRoute exampleHandler missingEnv noCaches newResponse
        (exampleRequest [] ''/iiif/img1/full/512,/0/default.jpg'') = Some (g', w') \<and> Code w' = 404)
   \<and> (\<exists>g' w'. IIIFRoute exampleHandler missingEnv cachedInfo newResponse
        (exampleRequest [] ''/iiif/img1/full/512,/0/default.jpg'') = Some (g', w') \<and> Code w' = 404)
   \<and> (\<exists>g' w'. IIIFRoute exampleHandler invalidEnv noCaches newResponse
        (exampleRequest [] ''/iiif/img1/full/512,/0/default.jpg'') = Some (g', w') \<and> Code w' = 400)
   \<and> Code (snd (Command noFeatures exampleEnv noCaches newResponse
        (exampleRequest [] ''/iiif/img1/full/512,/0/default.jpg'') tileURL exampleResource
        (Some emptyInfo))) = 501
   \<and> Code (snd (Command exampleHandler tooLargeEnv noCaches newResponse
        (exampleRequest [] ''/iiif/img1/full/512,/0/default.jpg'') tileURL exampleResource
        (Some emptyInfo))) = 501
   \<and> Code (snd (Command exampleHandler encodeFailEnv noCaches newResponse
        (exampleRequest [] ''/iiif/img1/full/512,/0/default.jpg'') tileURL exampleResource
        (Some emptyInfo))) = 500"
proof -
  let ?tile = "''/iiif/img1/full/512,/0/default.jpg''"
  have p1: "''img1'' = CutFirst (URLPath (exampleRequest [] ''/iiif/img1''))
                        (WebPathPrefix exampleHandler @ ''/'')"
    by (simp add: example_defs)
  have p2: "Path tileURL = CutFirst (URLPath (exampleRequest [] ?tile))
                        (WebPathPrefix exampleHandler @ ''/'')"
    by (simp add: example_defs)
  have p3: "Path tileURL = CutFirst (URLPath (exampleRequest [] ?tile))
                        (WebPathPrefix noFeatures @ ''/'')"
    by (simp add: example_defs variant_defs)
  note t1 = status_codes [OF int64_noCaches(1) int64_missingEnv p1, of newResponse,
      THEN conjunct1, THEN mp]
  have c1: "\<exists>g' w'. IIIFRoute exampleHandler missingEnv noCaches newResponse
        (exampleRequest [] ''/iiif/img1'') = Some (g', w') \<and> Code w' = 400"
    by (rule t1) (simp add: example_defs variant_defs handler_defs)
  note t2 = status_codes [OF int64_noCaches(1) int64_missingEnv p2,
      where u = tileURL and ?i0.0 = None and e = "newImageResError ErrDoesNotExist"
        and ?g1.0 = noCaches and w = newResponse,
      THEN conjunct2, THEN conjunct1, THEN mp]
  have "\<exists>err w'. snd (NewResource missingEnv (URL.ID tileURL)
                (getIIIFPath exampleHandler missingEnv (URL.ID tileURL))) = Some err
            \<and> IIIFRoute exampleHandler missingEnv noCaches newResponse (exampleRequest [] ?tile)
                = Some (noCaches, w')
            \<and> Code w' = (if err = ErrDimensionsExceedLimits then 501
                          else if err = ErrDoesNotExist then 404 else 500)"
    by (rule t2) (simp add: example_defs variant_defs handler_defs)
  then have c2: "\<exists>g' w'. IIIFRoute exampleHandler missingEnv noCaches newResponse
        (exampleRequest [] ?tile) = Some (g', w') \<and> Code w' = 404"
    by (auto simp: missingEnv_def exampleEnv_def)
  have "\<exists>i1 g1. getInfo exampleHandler missingEnv cachedInfo (URL.ID tileURL)
            (getIIIFPath exampleHandler missingEnv (URL.ID tileURL)) = Some (Some i1, None, g1)
          \<and> tileCache g1 = None"
    by (simp add: example_defs variant_defs handler_defs)
  then obtain i3 g3 where
    gi3: "getInfo exampleHandler missingEnv cachedInfo (URL.ID tileURL)
            (getIIIFPath exampleHandler missingEnv (URL.ID tileURL)) = Some (Some i3, None, g3)"
    and tc3: "tileCache g3 = None" by blast
  note t3 = status_codes [OF int64_cachedInfo int64_missingEnv p2,
      where u = tileURL and ?i1.0 = i3 and ?g1.0 = g3 and err = ErrDoesNotExist and w = newResponse,
      THEN conjunct2, THEN conjunct2, THEN conjunct1, THEN mp]
  have "\<exists>g' w'. IIIFRoute exampleHandler missingEnv cachedInfo newResponse
        (exampleRequest [] ?tile) = Some (g', w')
      \<and> Code w' = (if ErrDoesNotExist = ErrDimensionsExceedLimits then 501
                    else if ErrDoesNotExist = ErrDoesNotExist then 404 else 500)"
    by (rule t3) (simp add: gi3 tc3 cacheKey_def, simp add: example_defs variant_defs)
  then have c3: "\<exists>g' w'. IIIFRoute exampleHandler missingEnv cachedInfo newResponse
        (exampleRequest [] ?tile) = Some (g', w') \<and> Code w' = 404"
    by simp
  have "\<exists>i1 g1. getInfo exampleHandler invalidEnv noCaches (URL.ID tileURL)
            (getIIIFPath exampleHandler invalidEnv (URL.ID tileURL)) = Some (Some i1, None, g1)
          \<and> tileCache g1 = None"
    by (simp add: example_defs variant_defs handler_defs)
  then obtain i4 g4 where
    gi4: "getInfo exampleHandler invalidEnv noCaches (URL.ID tileURL)
            (getIIIFPath exampleHandler invalidEnv (URL.ID tileURL)) = Some (Some i4, None, g4)"
    and tc4: "tileCache g4 = None" by blast
  note t4 = status_codes [OF int64_noCaches(1) int64_invalidEnv p2,
      where u = tileURL and ?i1.0 = i4 and ?g1.0 = g4 and w = newResponse,
      THEN conjunct2, THEN conjunct2, THEN conjunct2, THEN conjunct1, THEN mp]
  have c4: "\<exists>g' w'. IIIFRoute exampleHandler invalidEnv noCaches newResponse
        (exampleRequest [] ?tile) = Some (g', w') \<and> Code w' = 400"
    by (rule t4) (simp add: gi4 tc4 cacheKey_def, simp add: example_defs variant_defs)
  note t5 = status_codes [OF int64_noCaches(1) int64_exampleEnv p3,
      where u = tileURL and w = newResponse and res = exampleResource and info = "Some emptyInfo",
      THEN conjunct2, THEN conjunct2, THEN conjunct2, THEN conjunct2, THEN conjunct1, THEN mp]
  have c5: "Code (snd (Command noFeatures exampleEnv noCaches newResponse
        (exampleRequest [] ?tile) tileURL exampleResource (Some emptyInfo))) = 501"
    by (rule t5) (simp add: example_defs variant_defs)
  have i6: "int64_decoders tooLargeEnv" and i7: "int64_decoders encodeFailEnv"
    by (simp_all add: int64_decoders_def int64_dims_def variant_defs exampleEnv_def
        exampleResource_def exampleImage_def in_int64_def)
  note t6 = status_codes [OF int64_noCaches(1) i6 p2,
      where u = tileURL and w = newResponse and res = exampleResource and info = "Some emptyInfo"
        and aerr = ErrDimensionsExceedLimits,
      THEN conjunct2, THEN conjunct2, THEN conjunct2, THEN conjunct2, THEN conjunct2,
      THEN conjunct1, THEN mp]
  have "Code (snd (Command exampleHandler tooLargeEnv noCaches newResponse
        (exampleRequest [] ?tile) tileURL exampleResource (Some emptyInfo)))
      = (if ErrDimensionsExceedLimits = ErrDimensionsExceedLimits then 501
         else if ErrDimensionsExceedLimits = ErrDoesNotExist then 404 else 500)"
    by (rule t6) (simp add: example_defs variant_defs)
  then have c6: "Code (snd (Command exampleHandler tooLargeEnv noCaches newResponse
        (exampleRequest [] ?tile) tileURL exampleResource (Some emptyInfo))) = 501"
    by simp
  note t7 = status_codes [OF int64_noCaches(1) i7 p2,
      where u = tileURL and w = newResponse and res = exampleResource and info = "Some emptyInfo"
        and eerr = "OtherError ''encoder failed''",
      THEN conjunct2, THEN conjunct2, THEN conjunct2, THEN conjunct2, THEN conjunct2,
      THEN conjunct2, THEN mp]
  have c7: "Code (snd (Command exampleHandler encodeFailEnv noCaches newResponse
        (exampleRequest [] ?tile) tileURL exampleResource (Some emptyInfo))) = 500"
    by (rule t7) (simp add: example_defs variant_defs)
  from c1 c2 c3 c4 c5 c6 c7 show ?thesis by blast
qed

section \<open>The tile cache, the profile and the info reply: results\<close>

lemma cacheKey_nonempty:
  "Path u \<noteq> [] \<Longrightarrow>
   (cacheKey g u \<noteq> []) = (tileCache g \<noteq> None \<and> Format u = FmtJPG \<and> 0 < W (Size u)
       \<and> W (Size u) \<le> 1024 \<and> H (Size u) \<le> 1024)"
  by (simp add: cacheKey_def)

lemma cacheKey_is_Path: "cacheKey g u \<noteq> [] \<Longrightarrow> cacheKey g u = Path u"
  by (simp add: cacheKey_def split: if_splits)

text \<open>
  A command request whose key is in the tile cache is answered from the cache, before
  the image is opened.
\<close>

lemma IIIFRoute_cache_hit:
  assumes "NewURL env (CutFirst (URLPath req) (WebPathPrefix ih @ ''/'')) = (u, None)"
    and "getInfo ih env g (URL.ID u) (getIIIFPath ih env (URL.ID u)) = Some (Some i0, None, g1)"
    and "\<not> URL.Info u"
    and "cacheKey g1 u \<noteq> []"
    and "tileCacheGet (Path u) g1 = Some data"
  shows "IIIFRoute ih env g w req =
     Some (g1\<lparr>TileCacheGet := TileCacheGet g1 + 1, TileCacheHit := TileCacheHit g1 + 1\<rparr>,
           Write data (HeaderSet ''Content-Type'' (TypeByExtension env (''.'' @ Format u)) w))"
proof -
  from assms(4) have k: "cacheKey g1 u = Path u" by (rule cacheKey_is_Path)
  show ?thesis
    using assms k by (simp add: IIIFRoute_def Let_def split: prod.split)
qed

lemma Command_changes_only_by_Add:
  "fst (Command ih env g w req u res info) = g
   \<or> (cacheKey g u \<noteq> []
       \<and> fst (Command ih env g w req u res info)
           = tileCacheAdd (cacheKey g u)
               (fst (EncodeImage env (fst (Apply env res u (commandConstraint ih info))) (Format u))) g)"
  by (auto simp: Command_def Let_def split: prod.split option.split)

lemma Command_change_served:
  assumes "fst (Command ih env g w req u res info) \<noteq> g"
  shows "snd (sendHeaders env w req (FilePath res)) = None"
    and "Supported (FeatureSet ih) u"
    and "snd (Apply env res u (commandConstraint ih info)) = None"
    and "snd (EncodeImage env (fst (Apply env res u (commandConstraint ih info))) (Format u)) = None"
    and "cacheKey g u \<noteq> []"
  using assms
  by (auto simp: Command_def Let_def split: prod.splits option.splits if_splits)

lemma tileCacheAdd_changes: "tileCacheAdd key buf g \<noteq> g"
proof
  assume "tileCacheAdd key buf g = g"
  then have "TileCacheSet (tileCacheAdd key buf g) = TileCacheSet g" by simp
  then show False by (simp add: tileCacheAdd_def)
qed


text \<open>
  C2, as the code has it. \<open>cacheKey\<close> is \<open>u.Path\<close> for a URL whose format is jpg,
  whose requested width is positive and at most 1024 and whose requested height is at
  most 1024, with the tile cache enabled, and empty for every other URL. \<open>Command\<close>
  changes the package state only when \<open>sendHeaders\<close>, the feature check,
  \<open>Resource.Apply\<close> and \<open>EncodeImage\<close> have all succeeded and the URL is such a
  URL, and the change is one \<open>tileCache.Add\<close> of the encoded image under
  \<open>u.Path\<close>; in every other case it inserts nothing. Conversely, once the image is
  encoded, such a URL is inserted. An insertion counts one \<open>Set\<close> and binds the key
  in the cache. \<open>IIIFRoute\<close> looks up the same key: a command request whose key is not
  empty and is bound in the cache is answered with the cached bytes, and any other one
  goes on to \<open>Command\<close> (with one \<open>Get\<close> counted when the key is not empty).
\<close>

theorem Command_tile_cache:
  "cacheKey g u =
     (if tileCache g \<noteq> None \<and> Format u = FmtJPG \<and> 0 < W (Size u)
         \<and> W (Size u) \<le> 1024 \<and> H (Size u) \<le> 1024
      then Path u else [])
   \<and> (fst (Command ih env g w req u res info) \<noteq> g
      \<longrightarrow> snd (sendHeaders env w req (FilePath res)) = None
          \<and> Supported (FeatureSet ih) u
          \<and> snd (Apply env res u (commandConstraint ih info)) = None
          \<and> snd (EncodeImage env (fst (Apply env res u (commandConstraint ih info)))
                 (Format u)) = None
          \<and> tileCache g \<noteq> None \<and> Format u = FmtJPG \<and> 0 < W (Size u)
          \<and> W (Size u) \<le> 1024 \<and> H (Size u) \<le> 1024
          \<and> fst (Command ih env g w req u res info)
              = tileCacheAdd (Path u)
                  (fst (EncodeImage env (fst (Apply env res u (commandConstraint ih info)))
                     (Format u))) g)
   \<and> (snd (sendHeaders env w req (FilePath res)) = None
       \<and> Supported (FeatureSet ih) u
       \<and> Apply env res u (commandConstraint ih info) = (img, None)
       \<and> EncodeImage env img (Format u) = (buf, None)
       \<and> Path u \<noteq> []
      \<longrightarrow> fst (Command ih env g w req u res info)
            = (if tileCache g \<noteq> None \<and> Format u = FmtJPG \<and> 0 < W (Size u)
                  \<and> W (Size u) \<le> 1024 \<and> H (Size u) \<le> 1024
               then tileCacheAdd (Path u) buf g else g))
   \<and> (TileCacheSet (tileCacheAdd key buf g) = TileCacheSet g + 1
       \<and> tileCache (tileCacheAdd key buf g)
           = map_option (\<lambda>cache. cache(key \<mapsto> buf)) (tileCache g)
       \<and> tileCacheAdd key buf g \<noteq> g)
   \<and> (NewURL env (CutFirst (URLPath req) (WebPathPrefix ih @ ''/'')) = (u, None)
       \<and> getInfo ih env g (URL.ID u) (getIIIFPath ih env (URL.ID u)) = Some (Some i0, None, g1)
       \<and> \<not> URL.Info u
       \<and> cacheKey g1 u \<noteq> []
       \<and> tileCacheGet (Path u) g1 = Some data
      \<longrightarrow> IIIFRoute ih env g w req =
            Some (g1\<lparr>TileCacheGet := TileCacheGet g1 + 1, TileCacheHit := TileCacheHit g1 + 1\<rparr>,
                  Write data
                    (HeaderSet ''Content-Type'' (TypeByExtension env (''.'' @ Format u)) w)))
   \<and> (NewURL env (CutFirst (URLPath req) (WebPathPrefix ih @ ''/'')) = (u, None)
       \<and> getInfo ih env g (URL.ID u) (getIIIFPath ih env (URL.ID u)) = Some (Some i0, None, g1)
       \<and> \<not> URL.Info u
       \<and> (cacheKey g1 u = [] \<or> tileCacheGet (Path u) g1 = None)
       \<and> NewResource env (URL.ID u) (getIIIFPath ih env (URL.ID u)) = (res, None)
       \<and> Valid env u
      \<longrightarrow> (\<exists>i. IIIFRoute ih env g w req =
            Some (Command ih env
                    (if cacheKey g1 u \<noteq> []
                     then g1\<lparr>TileCacheGet := TileCacheGet g1 + 1\<rparr> else g1)
                    w req u res (Some i))))"
proof (intro conjI impI)
  show "cacheKey g u =
     (if tileCache g \<noteq> None \<and> Format u = FmtJPG \<and> 0 < W (Size u)
         \<and> W (Size u) \<le> 1024 \<and> H (Size u) \<le> 1024
      then Path u else [])"
    by (simp add: cacheKey_def)
next
  assume ne: "fst (Command ih env g w req u res info) \<noteq> g"
  note s = Command_change_served [OF ne]
  from s(1) show "snd (sendHeaders env w req (FilePath res)) = None" .
  from s(2) show "Supported (FeatureSet ih) u" .
  from s(3) show "snd (Apply env res u (commandConstraint ih info)) = None" .
  from s(4) show "snd (EncodeImage env (fst (Apply env res u (commandConstraint ih info)))
                 (Format u)) = None" .
  from s(5) show "tileCache g \<noteq> None" "Format u = FmtJPG" "0 < W (Size u)"
    "W (Size u) \<le> 1024" "H (Size u) \<le> 1024"
    by (simp_all add: cacheKey_def split: if_splits)
  from ne Command_changes_only_by_Add [of ih env g w req u res info]
  have "fst (Command ih env g w req u res info)
           = tileCacheAdd (cacheKey g u)
               (fst (EncodeImage env (fst (Apply env res u (commandConstraint ih info))) (Format u))) g"
    by blast
  with cacheKey_is_Path [OF s(5)]
  show "fst (Command ih env g w req u res info)
              = tileCacheAdd (Path u)
                  (fst (EncodeImage env (fst (Apply env res u (commandConstraint ih info)))
                     (Format u))) g"
    by simp
next
  assume a: "snd (sendHeaders env w req (FilePath res)) = None
       \<and> Supported (FeatureSet ih) u
       \<and> Apply env res u (commandConstraint ih info) = (img, None)
       \<and> EncodeImage env img (Format u) = (buf, None)
       \<and> Path u \<noteq> []"
  then have "sendHeaders env w req (FilePath res) = (fst (sendHeaders env w req (FilePath res)), None)"
    by (metis prod.collapse)
  from Command_served [OF this, of ih u info img buf g] a
  show "fst (Command ih env g w req u res info)
            = (if tileCache g \<noteq> None \<and> Format u = FmtJPG \<and> 0 < W (Size u)
                  \<and> W (Size u) \<le> 1024 \<and> H (Size u) \<le> 1024
               then tileCacheAdd (Path u) buf g else g)"
    by (auto simp: cacheKey_def)
next
  show "tileCacheAdd key buf g \<noteq> g" by (rule tileCacheAdd_changes)
next
  assume "NewURL env (CutFirst (URLPath req) (WebPathPrefix ih @ ''/'')) = (u, None)
       \<and> getInfo ih env g (URL.ID u) (getIIIFPath ih env (URL.ID u)) = Some (Some i0, None, g1)
       \<and> \<not> URL.Info u
       \<and> cacheKey g1 u \<noteq> []
       \<and> tileCacheGet (Path u) g1 = Some data"
  then show "IIIFRoute ih env g w req =
            Some (g1\<lparr>TileCacheGet := TileCacheGet g1 + 1, TileCacheHit := TileCacheHit g1 + 1\<rparr>,
                  Write data
                    (HeaderSet ''Content-Type'' (TypeByExtension env (''.'' @ Format u)) w))"
    using IIIFRoute_cache_hit by blast
next
  assume a: "NewURL env (CutFirst (URLPath req) (WebPathPrefix ih @ ''/'')) = (u, None)
       \<and> getInfo ih env g (URL.ID u) (getIIIFPath ih env (URL.ID u)) = Some (Some i0, None, g1)
       \<and> \<not> URL.Info u
       \<and> (cacheKey g1 u = [] \<or> tileCacheGet (Path u) g1 = None)
       \<and> NewResource env (URL.ID u) (getIIIFPath ih env (URL.ID u)) = (res, None)
       \<and> Valid env u"
  have k: "cacheKey g1 u = [] \<or> tileCacheGet (cacheKey g1 u) g1 = None"
  proof (cases "cacheKey g1 u = []")
    case True
    then show ?thesis by simp
  next
    case False
    then have "cacheKey g1 u = Path u" by (rule cacheKey_is_Path)
    with False a show ?thesis by simp
  qed
  from a have
    "NewURL env (CutFirst (URLPath req) (WebPathPrefix ih @ ''/'')) = (u, None)"
    "getInfo ih env g (URL.ID u) (getIIIFPath ih env (URL.ID u)) = Some (Some i0, None, g1)"
    "\<not> URL.Info u"
    "NewResource env (URL.ID u) (getIIIFPath ih env (URL.ID u)) = (res, None)"
    "Valid env u"
    by simp_all
  from IIIFRoute_command [OF this(1,2,3) k this(4,5) refl, of w]
  show "\<exists>i. IIIFRoute ih env g w req =
            Some (Command ih env
                    (if cacheKey g1 u \<noteq> []
                     then g1\<lparr>TileCacheGet := TileCacheGet g1 + 1\<rparr> else g1)
                    w req u res (Some i))"
    by blast
qed (simp_all add: tileCacheAdd_def)

text \<open>
  C2 as stated fails for a request by height alone, whose requested width is 0:
  \<open>img1/full/,500/0/default.jpg\<close> is a jpg with both dimensions at most 1024 and
  the cache is enabled, yet \<open>cacheKey\<close> is empty and the served command inserts
  nothing.
\<close>

theorem cacheKey_zero_width_not_cached:
  "tileCache emptyCaches \<noteq> None
   \<and> Format heightOnlyURL = FmtJPG
   \<and> W (Size heightOnlyURL) \<le> 1024 \<and> H (Size heightOnlyURL) \<le> 1024
   \<and> cacheKey emptyCaches heightOnlyURL = []
   \<and> Command exampleHandler exampleEnv emptyCaches newResponse
        (exampleRequest [] ''/iiif/img1/full/,500/0/default.jpg'') heightOnlyURL exampleResource
        (Some emptyInfo)
      = (emptyCaches,
         Write ''encoded'' (HeaderSet ''Content-Type'' ''image/jpeg'' newResponse))"
  by (simp add: example_defs Command_def commandConstraint_def cacheKey_def FmtJPG_def Let_def)

theorem Command_tile_cache_witness:
  "cacheKey emptyCaches tileURL = ''img1/full/512,/0/default.jpg''
   \<and> cacheKey emptyCaches heightOnlyURL = []
   \<and> fst (Command exampleHandler exampleEnv emptyCaches newResponse
        (exampleRequest [] ''/iiif/img1/full/512,/0/default.jpg'') tileURL exampleResource
        (Some emptyInfo)) \<noteq> emptyCaches
   \<and> fst (Command exampleHandler exampleEnv emptyCaches newResponse
        (exampleRequest [] ''/iiif/img1/full/512,/0/default.jpg'') tileURL exampleResource
        (Some emptyInfo)) = tileCacheAdd ''img1/full/512,/0/default.jpg'' ''encoded'' emptyCaches
   \<and> tileCache (tileCacheAdd ''img1/full/512,/0/default.jpg'' ''encoded'' emptyCaches)
       = Some [''img1/full/512,/0/default.jpg'' \<mapsto> ''encoded'']
   \<and> fst (Command exampleHandler exampleEnv emptyCaches newResponse
        (exampleRequest [] ''/iiif/img1/full/,500/0/default.jpg'') heightOnlyURL exampleResource
        (Some emptyInfo)) = emptyCaches
   \<and> map_option (\<lambda>r. Body (snd r)) (IIIFRoute exampleHandler exampleEnv warmCaches newResponse
        (exampleRequest [] ''/iiif/img1/full/512,/0/default.jpg'')) = Some ''cached''
   \<and> (\<exists>g1 i. IIIFRoute exampleHandler exampleEnv emptyCaches newResponse
        (exampleRequest [] ''/iiif/img1/full/,500/0/default.jpg'')
        = Some (Command exampleHandler exampleEnv g1 newResponse
             (exampleRequest [] ''/iiif/img1/full/,500/0/default.jpg'') heightOnlyURL
             exampleResource (Some i)))"
proof -
  let ?tile = "''/iiif/img1/full/512,/0/default.jpg''"
  let ?high = "''/iiif/img1/full/,500/0/default.jpg''"
  let ?c = "\<lambda>p u. fst (Command exampleHandler exampleEnv emptyCaches newResponse
        (exampleRequest [] p) u exampleResource (Some emptyInfo))"
  note t = Command_tile_cache [where ih = exampleHandler and env = exampleEnv
      and w = newResponse and res = exampleResource and info = "Some emptyInfo"
      and img = "''pixels''" and buf = "''encoded''"]
  note te = t [where g = emptyCaches]
  have served: "snd (sendHeaders exampleEnv newResponse req (FilePath exampleResource)) = None"
    "Supported (FeatureSet exampleHandler) u"
    "Apply exampleEnv exampleResource u (commandConstraint exampleHandler (Some emptyInfo))
       = (''pixels'', None)"
    "EncodeImage exampleEnv ''pixels'' (Format u) = (''encoded'', None)" for req u
    by (simp_all add: example_defs)
  from te [where u = tileURL, THEN conjunct1]
  have k1: "cacheKey emptyCaches tileURL = ''img1/full/512,/0/default.jpg''"
    by (simp add: tileURL_def emptyCaches_def noCaches_def FmtJPG_def)
  from te [where u = heightOnlyURL, THEN conjunct1]
  have k2: "cacheKey emptyCaches heightOnlyURL = []"
    by (simp add: heightOnlyURL_def)
  have n1: "?c ?tile tileURL \<noteq> emptyCaches"
    by (simp add: example_defs Command_def commandConstraint_def cacheKey_def FmtJPG_def Let_def
        tileCacheAdd_def)
  have e1: "Path tileURL = ''img1/full/512,/0/default.jpg''"
    by (simp add: tileURL_def)
  have e2: "fst (EncodeImage exampleEnv (fst (Apply exampleEnv exampleResource tileURL
      (commandConstraint exampleHandler (Some emptyInfo)))) (Format tileURL)) = ''encoded''"
    by (simp add: exampleEnv_def)
  from te [where u = tileURL and req = "exampleRequest [] ?tile",
      THEN conjunct2, THEN conjunct1, THEN mp, OF n1]
  have a: "?c ?tile tileURL = tileCacheAdd ''img1/full/512,/0/default.jpg'' ''encoded'' emptyCaches"
    unfolding e1 e2 by blast
  have hyp: "snd (sendHeaders exampleEnv newResponse (exampleRequest [] ?high)
              (FilePath exampleResource)) = None
       \<and> Supported (FeatureSet exampleHandler) heightOnlyURL
       \<and> Apply exampleEnv exampleResource heightOnlyURL
            (commandConstraint exampleHandler (Some emptyInfo)) = (''pixels'', None)
       \<and> EncodeImage exampleEnv ''pixels'' (Format heightOnlyURL) = (''encoded'', None)
       \<and> Path heightOnlyURL \<noteq> []"
    by (intro conjI served) (simp add: heightOnlyURL_def)
  from te [where u = heightOnlyURL and req = "exampleRequest [] ?high",
      THEN conjunct2, THEN conjunct2, THEN conjunct1, THEN mp, OF hyp]
  have b: "?c ?high heightOnlyURL = emptyCaches"
    by (simp add: heightOnlyURL_def)
  from te [where key = "''img1/full/512,/0/default.jpg''",
      THEN conjunct2, THEN conjunct2, THEN conjunct2, THEN conjunct1]
  have c: "tileCache (tileCacheAdd ''img1/full/512,/0/default.jpg'' ''encoded'' emptyCaches)
       = Some [''img1/full/512,/0/default.jpg'' \<mapsto> ''encoded'']"
    by (simp add: emptyCaches_def noCaches_def)
  have "\<exists>i0 g1. getInfo exampleHandler exampleEnv warmCaches (URL.ID tileURL)
            (getIIIFPath exampleHandler exampleEnv (URL.ID tileURL)) = Some (Some i0, None, g1)
          \<and> tileCache g1 = tileCache warmCaches"
    by (simp add: example_defs warmCaches_def handler_defs)
  then obtain i5 g5 where
    gi5: "getInfo exampleHandler exampleEnv warmCaches (URL.ID tileURL)
            (getIIIFPath exampleHandler exampleEnv (URL.ID tileURL)) = Some (Some i5, None, g5)"
    and tc5: "tileCache g5 = tileCache warmCaches" by blast
  have h5: "NewURL exampleEnv (CutFirst (URLPath (exampleRequest [] ?tile))
              (WebPathPrefix exampleHandler @ ''/'')) = (tileURL, None)
       \<and> getInfo exampleHandler exampleEnv warmCaches (URL.ID tileURL)
            (getIIIFPath exampleHandler exampleEnv (URL.ID tileURL)) = Some (Some i5, None, g5)
       \<and> \<not> URL.Info tileURL
       \<and> cacheKey g5 tileURL \<noteq> []
       \<and> tileCacheGet (Path tileURL) g5 = Some ''cached''"
    using gi5 by (simp add: tc5 cacheKey_def tileCacheGet_def warmCaches_def example_defs FmtJPG_def)
  from t [where g = warmCaches and u = tileURL and req = "exampleRequest [] ?tile"
      and ?i0.0 = i5 and ?g1.0 = g5 and data = "''cached''",
      THEN conjunct2, THEN conjunct2, THEN conjunct2, THEN conjunct2, THEN conjunct1, THEN mp,
      OF h5]
  have d: "map_option (\<lambda>r. Body (snd r)) (IIIFRoute exampleHandler exampleEnv warmCaches newResponse
        (exampleRequest [] ?tile)) = Some ''cached''"
    by (simp add: Write_def HeaderSet_def newResponse_def)
  have "\<exists>i0 g1. getInfo exampleHandler exampleEnv emptyCaches (URL.ID heightOnlyURL)
            (getIIIFPath exampleHandler exampleEnv (URL.ID heightOnlyURL)) = Some (Some i0, None, g1)"
    by (simp add: example_defs handler_defs)
  then obtain i6 g6 where
    gi6: "getInfo exampleHandler exampleEnv emptyCaches (URL.ID heightOnlyURL)
            (getIIIFPath exampleHandler exampleEnv (URL.ID heightOnlyURL)) = Some (Some i6, None, g6)"
    by blast
  have h6: "NewURL exampleEnv (CutFirst (URLPath (exampleRequest [] ?high))
              (WebPathPrefix exampleHandler @ ''/'')) = (heightOnlyURL, None)
       \<and> getInfo exampleHandler exampleEnv emptyCaches (URL.ID heightOnlyURL)
            (getIIIFPath exampleHandler exampleEnv (URL.ID heightOnlyURL)) = Some (Some i6, None, g6)
       \<and> \<not> URL.Info heightOnlyURL
       \<and> (cacheKey g6 heightOnlyURL = [] \<or> tileCacheGet (Path heightOnlyURL) g6 = None)
       \<and> NewResource exampleEnv (URL.ID heightOnlyURL)
            (getIIIFPath exampleHandler exampleEnv (URL.ID heightOnlyURL)) = (exampleResource, None)
       \<and> Valid exampleEnv heightOnlyURL"
    using gi6 by (simp add: cacheKey_def example_defs)
  from te [where u = heightOnlyURL and req = "exampleRequest [] ?high"
      and ?i0.0 = i6 and ?g1.0 = g6,
      THEN conjunct2, THEN conjunct2, THEN conjunct2, THEN conjunct2, THEN conjunct2, THEN mp,
      OF h6]
  have e: "\<exists>g1 i. IIIFRoute exampleHandler exampleEnv emptyCaches newResponse
        (exampleRequest [] ?high)
        = Some (Command exampleHandler exampleEnv g1 newResponse
             (exampleRequest [] ?high) heightOnlyURL exampleResource (Some i))"
    by blast
  from k1 k2 n1 a c b d e show ?thesis by blast
qed


lemma setTiles_Profile: "setTiles i info = Some info' \<Longrightarrow> Profile info' = Profile info"
  by (auto simp: setTiles_def split: if_splits option.splits)

text \<open>
  C5, as the code has it. The profile of the generated document gets \<open>MaxArea\<close>,
  \<open>MaxWidth\<close> and \<open>MaxHeight\<close> exactly when the handler's constraint is smaller
  than the image in width, in height or in area, and then the three values are the
  constraint's own; otherwise the profile is the one the feature set gave.
\<close>

theorem buildInfo_profile:
  assumes "int64_dims i"
  shows "map_option Profile (buildInfo maxs base i) =
     Some (if SmallerThanAny maxs (ImageInfo.Width i) (ImageInfo.Height i)
           then (Profile base)\<lparr>MaxArea := Area maxs,
                                 MaxWidth := Constraint.Width maxs,
                                 MaxHeight := Constraint.Height maxs\<rparr>
           else Profile base)
   \<and> SmallerThanAny maxs (ImageInfo.Width i) (ImageInfo.Height i)
       = (ImageInfo.Width i > Constraint.Width maxs
          \<or> ImageInfo.Height i > Constraint.Height maxs
          \<or> ImageInfo.Width i * ImageInfo.Height i > Area maxs)"
proof -
  from buildInfo_returns [OF assms, of maxs base] obtain info where
    b: "buildInfo maxs base i = Some info" by blast
  then have "Profile info = Profile (setMaximums maxs i
      (base\<lparr>Info.Width := ImageInfo.Width i, Info.Height := ImageInfo.Height i\<rparr>))"
    unfolding buildInfo_def by (rule setTiles_Profile)
  with b show ?thesis
    by (simp add: setMaximums_def SmallerThanAny_def)
qed

theorem buildInfo_profile_witness:
  "int64_dims exampleImage
   \<and> map_option Profile (buildInfo heightLimit emptyInfo exampleImage)
       = Some \<lparr>MaxArea = MaxInt64, MaxWidth = 10000, MaxHeight = 100\<rparr>
   \<and> map_option Profile (buildInfo unlimited emptyInfo exampleImage)
       = Some \<lparr>MaxArea = 0, MaxWidth = 0, MaxHeight = 0\<rparr>"
proof -
  have d: "int64_dims exampleImage"
    by (simp add: int64_dims_def exampleImage_def in_int64_def)
  from buildInfo_profile [OF d, of heightLimit emptyInfo, THEN conjunct1]
  have a: "map_option Profile (buildInfo heightLimit emptyInfo exampleImage)
       = Some \<lparr>MaxArea = MaxInt64, MaxWidth = 10000, MaxHeight = 100\<rparr>"
    by (simp add: SmallerThanAny_def heightLimit_def exampleImage_def emptyInfo_def)
  from buildInfo_profile [OF d, of unlimited emptyInfo, THEN conjunct1]
  have b: "map_option Profile (buildInfo unlimited emptyInfo exampleImage)
       = Some \<lparr>MaxArea = 0, MaxWidth = 0, MaxHeight = 0\<rparr>"
    by (simp add: SmallerThanAny_def unlimited_def exampleImage_def emptyInfo_def
        MaxInt32_def MaxInt64_def)
  from d a b show ?thesis by blast
qed

text \<open>
  C5 as stated fails where the constraint is smaller than the image in one dimension
  only: with maximums 10000 by 100 the example image (6000 by 4000) gets
  \<open>MaxWidth = 10000\<close>, not the tighter of 6000 and 10000.
\<close>

theorem buildInfo_profile_not_tighter:
  "SmallerThanAny heightLimit (ImageInfo.Width exampleImage) (ImageInfo.Height exampleImage)
   \<and> map_option (MaxWidth \<circ> Profile) (buildInfo heightLimit emptyInfo exampleImage) = Some 10000
   \<and> min (ImageInfo.Width exampleImage) (Constraint.Width heightLimit) = 6000"
  by (simp add: buildInfo_def setTiles_def setMaximums_def SmallerThanAny_def heightLimit_def
      exampleImage_def emptyInfo_def scaleFactors.simps go_quot_def wrap64_def)

















text \<open>
  \<open>acceptsLD\<close> compares the pieces as they are, so it misses an element written with
  a space after the comma or with a parameter, which the header lists all the same.
\<close>

lemma acceptsLD_examples:
  "acceptsLD (exampleRequest [''text/html,application/ld+json''] p)"
  "\<not> acceptsLD (exampleRequest [''text/html, application/ld+json''] p)"
  "\<not> acceptsLD (exampleRequest [''application/ld+json;q=0.9''] p)"
  "\<not> acceptsLD (exampleRequest [] p)"
  by (simp_all add: acceptsLD_def exampleRequest_def)





section \<open>The stream bridge: results\<close>

lemma sentinel_bits: "opjMinusOne64 = - 1" "opjMinusOneSizeT = - 1"
  "\<forall>n < 64. bit opjMinusOne64 n"
  by (simp_all add: opjMinusOne64_def opjMinusOneSizeT_def)

lemma size_t_of_off_t: "(word_of_int (sint w) :: 64 word) = w"
  by simp

lemma opjStreamRead_unknown:
  "lookupStream reg sid = None \<Longrightarrow> fst (opjStreamRead io reg n sid) = - 1"
  by (simp add: opjStreamRead_def opjMinusOne64_def)

lemma opjStreamRead_error:
  "lookupStream reg sid = Some s \<Longrightarrow> snd (fst (Read io s (unat n))) \<noteq> None
     \<Longrightarrow> fst (opjStreamRead io reg n sid) = - 1"
  by (auto simp: opjStreamRead_def opjMinusOne64_def split: prod.split option.split)

lemma opjStreamRead_ok:
  "lookupStream reg sid = Some s \<Longrightarrow> fst (Read io s (unat n)) = (data, None)
     \<Longrightarrow> fst (opjStreamRead io reg n sid) = word_of_nat (length data)"
  by (auto simp: opjStreamRead_def split: prod.split option.split)

lemma opjStreamSkip_unknown:
  "lookupStream reg sid = None \<Longrightarrow> fst (opjStreamSkip io reg n sid) = - 1"
  by (simp add: opjStreamSkip_def opjMinusOneSizeT_def)

lemma opjStreamSkip_error:
  "lookupStream reg sid = Some s \<Longrightarrow> snd (fst (Seek io s (sint n) SeekCurrent)) \<noteq> None
     \<Longrightarrow> fst (opjStreamSkip io reg n sid) = - 1"
  by (auto simp: opjStreamSkip_def opjMinusOneSizeT_def split: prod.split option.split)

lemma opjStreamSkip_ok:
  "lookupStream reg sid = Some s \<Longrightarrow> snd (fst (Seek io s (sint n) SeekCurrent)) = None
     \<Longrightarrow> fst (opjStreamSkip io reg n sid) = n"
  by (auto simp: opjStreamSkip_def split: prod.split option.split)

lemma opjStreamSeek_true:
  "(fst (opjStreamSeek io reg off sid) = OPJ_TRUE)
     = (\<exists>s. lookupStream reg sid = Some s \<and> snd (fst (Seek io s (sint off) SeekStart)) = None)"
  by (auto simp: opjStreamSeek_def OPJ_TRUE_def OPJ_FALSE_def split: prod.split option.split)

lemma opjStreamSeek_bool:
  "fst (opjStreamSeek io reg off sid) = OPJ_TRUE \<or> fst (opjStreamSeek io reg off sid) = OPJ_FALSE"
  by (auto simp: opjStreamSeek_def split: prod.split option.split)

text \<open>
  C8. For a stream id that is not in the registry \<open>opjStreamRead\<close> and
  \<open>opjStreamSkip\<close> return the value with all bits set and \<open>opjStreamSeek\<close> returns
  false. For a registered id, \<open>opjStreamRead\<close> returns all bits set when the reader
  returns an error (\<open>io.EOF\<close> is one), and otherwise the number of bytes read;
  \<open>opjStreamSkip\<close> returns the number of bytes it was asked to skip when the seek from
  the current offset succeeds (for a forward skip that is the requested count as a
  number) and all bits set when it fails; \<open>opjStreamSeek\<close> returns true exactly when
  the id is registered and the seek from the start succeeds, and false otherwise.
\<close>

theorem stream_callbacks:
  "(lookupStream reg sid = None \<longrightarrow>
      fst (opjStreamRead io reg n sid) = - 1
      \<and> fst (opjStreamSkip io reg n sid) = - 1
      \<and> fst (opjStreamSeek io reg n sid) = OPJ_FALSE)
   \<and> (lookupStream reg sid = Some s \<and> snd (fst (Read io s (unat n))) \<noteq> None \<longrightarrow>
      fst (opjStreamRead io reg n sid) = - 1)
   \<and> (lookupStream reg sid = Some s \<and> fst (Read io s (unat n)) = (data, None) \<longrightarrow>
      fst (opjStreamRead io reg n sid) = word_of_nat (length data)
      \<and> (length data \<le> unat n \<longrightarrow> unat (fst (opjStreamRead io reg n sid)) = length data))
   \<and> (lookupStream reg sid = Some s \<and> snd (fst (Seek io s (sint n) SeekCurrent)) = None \<longrightarrow>
      fst (opjStreamSkip io reg n sid) = n
      \<and> (0 \<le> sint n \<longrightarrow> uint (fst (opjStreamSkip io reg n sid)) = sint n))
   \<and> (lookupStream reg sid = Some s \<and> snd (fst (Seek io s (sint n) SeekCurrent)) \<noteq> None \<longrightarrow>
      fst (opjStreamSkip io reg n sid) = - 1)
   \<and> (fst (opjStreamSeek io reg n sid) = OPJ_TRUE)
       = (\<exists>s. lookupStream reg sid = Some s \<and> snd (fst (Seek io s (sint n) SeekStart)) = None)
   \<and> (fst (opjStreamSeek io reg n sid) = OPJ_TRUE \<or> fst (opjStreamSeek io reg n sid) = OPJ_FALSE)
   \<and> (\<forall>k < 64. bit (- 1 :: 64 word) k)"
proof (intro conjI impI)
  assume "lookupStream reg sid = Some s \<and> fst (Read io s (unat n)) = (data, None)"
  then have r: "fst (opjStreamRead io reg n sid) = word_of_nat (length data)"
    by (simp add: opjStreamRead_ok)
  then show "fst (opjStreamRead io reg n sid) = word_of_nat (length data)" .
  assume "length data \<le> unat n"
  then show "unat (fst (opjStreamRead io reg n sid)) = length data"
    unfolding r by (rule le_unat_uoi)
next
  assume a: "lookupStream reg sid = Some s \<and> snd (fst (Seek io s (sint n) SeekCurrent)) = None"
  then have r: "fst (opjStreamSkip io reg n sid) = n" by (simp add: opjStreamSkip_ok)
  then show "fst (opjStreamSkip io reg n sid) = n" .
  assume nn: "0 \<le> sint n"
  have "sint n < 2 ^ 63" using sint_lt [of n] by simp
  then have "sint n < 2 ^ 64" by simp
  with nn have "take_bit 64 (sint n) = sint n" by (rule take_bit_int_eq_self)
  then show "uint (fst (opjStreamSkip io reg n sid)) = sint n"
    unfolding r by (simp add: uint_sint)
next
  show "(fst (opjStreamSeek io reg n sid) = OPJ_TRUE)
       = (\<exists>s. lookupStream reg sid = Some s \<and> snd (fst (Seek io s (sint n) SeekStart)) = None)"
    by (rule opjStreamSeek_true)
next
  assume "lookupStream reg sid = None"
  then show "fst (opjStreamSeek io reg n sid) = OPJ_FALSE"
    by (simp add: opjStreamSeek_def)
qed (simp_all add: opjStreamRead_unknown opjStreamRead_error opjStreamSkip_unknown
    opjStreamSkip_error opjStreamSeek_bool)

theorem stream_callbacks_witness:
  "fst (opjStreamRead bytesReader exampleStreams 4 7) = - 1
   \<and> fst (opjStreamSkip bytesReader exampleStreams 4 7) = - 1
   \<and> fst (opjStreamSeek bytesReader exampleStreams 4 7) = OPJ_FALSE
   \<and> fst (opjStreamRead bytesReader exampleStreams 4 2) = - 1
   \<and> fst (opjStreamRead bytesReader exampleStreams 4 1) = 4
   \<and> unat (fst (opjStreamRead bytesReader exampleStreams 4 1)) = length ''abcd''
   \<and> fst (opjStreamSkip bytesReader exampleStreams 4 1) = 4
   \<and> uint (fst (opjStreamSkip bytesReader exampleStreams 4 1)) = 4
   \<and> fst (opjStreamSkip bytesReader exampleStreams (- 4) 1) = - 1
   \<and> fst (opjStreamSeek bytesReader exampleStreams 4 1) = OPJ_TRUE
   \<and> fst (opjStreamSeek bytesReader exampleStreams (- 4) 1) \<noteq> OPJ_TRUE"
proof -
  have l7: "lookupStream exampleStreams 7 = None"
    and l1: "lookupStream exampleStreams 1 = Some (''abcdef'', 0)"
    and l2: "lookupStream exampleStreams 2 = Some (''abc'', 3)"
    by (simp_all add: lookupStream_def exampleStreams_def)
  have s4: "sint (4 :: 64 word) = 4" and sm4: "sint (- 4 :: 64 word) = - 4"
    and u4: "unat (4 :: 64 word) = 4"
    by simp_all
  have r2: "snd (fst (Read bytesReader (''abc'', 3) (unat (4 :: 64 word)))) \<noteq> None"
    by (simp add: bytesReader_def)
  have r1: "fst (Read bytesReader (''abcdef'', 0) (unat (4 :: 64 word))) = (''abcd'', None)"
    by (simp add: bytesReader_def u4 Let_def)
  have k1: "snd (fst (Seek bytesReader (''abcdef'', 0) (sint (4 :: 64 word)) SeekCurrent)) = None"
    by (simp add: bytesReader_def s4 Let_def)
  have k2: "snd (fst (Seek bytesReader (''abcdef'', 0) (sint (- 4 :: 64 word)) SeekCurrent)) \<noteq> None"
    by (simp add: bytesReader_def sm4 Let_def)
  have k3: "\<exists>s. lookupStream exampleStreams 1 = Some s
      \<and> snd (fst (Seek bytesReader s (sint (4 :: 64 word)) SeekStart)) = None"
    by (simp add: l1 bytesReader_def s4 Let_def)
  have k4: "\<not> (\<exists>s. lookupStream exampleStreams 1 = Some s
      \<and> snd (fst (Seek bytesReader s (sint (- 4 :: 64 word)) SeekStart)) = None)"
    by (simp add: l1 bytesReader_def sm4 Let_def)
  note t = stream_callbacks [where io = bytesReader and reg = exampleStreams]
  from t [where sid = 7 and n = 4, THEN conjunct1] l7
  have a: "fst (opjStreamRead bytesReader exampleStreams 4 7) = - 1
      \<and> fst (opjStreamSkip bytesReader exampleStreams 4 7) = - 1
      \<and> fst (opjStreamSeek bytesReader exampleStreams 4 7) = OPJ_FALSE"
    by blast
  from t [where sid = 2 and n = 4 and s = "(''abc'', 3)", THEN conjunct2, THEN conjunct1] l2 r2
  have b: "fst (opjStreamRead bytesReader exampleStreams 4 2) = - 1" by blast
  from t [where sid = 1 and n = 4 and s = "(''abcdef'', 0)" and data = "''abcd''",
      THEN conjunct2, THEN conjunct2, THEN conjunct1] l1 r1
  have c: "fst (opjStreamRead bytesReader exampleStreams 4 1) = 4
      \<and> unat (fst (opjStreamRead bytesReader exampleStreams 4 1)) = length ''abcd''"
    by (simp add: u4)
  from t [where sid = 1 and n = 4 and s = "(''abcdef'', 0)",
      THEN conjunct2, THEN conjunct2, THEN conjunct2, THEN conjunct1] l1 k1
  have d: "fst (opjStreamSkip bytesReader exampleStreams 4 1) = 4
      \<and> uint (fst (opjStreamSkip bytesReader exampleStreams 4 1)) = 4"
    by (simp add: s4)
  from t [where sid = 1 and n = "- 4" and s = "(''abcdef'', 0)",
      THEN conjunct2, THEN conjunct2, THEN conjunct2, THEN conjunct2, THEN conjunct1] l1 k2
  have e: "fst (opjStreamSkip bytesReader exampleStreams (- 4) 1) = - 1" by blast
  from t [where sid = 1 and n = 4,
      THEN conjunct2, THEN conjunct2, THEN conjunct2, THEN conjunct2, THEN conjunct2,
      THEN conjunct1] k3
  have f: "fst (opjStreamSeek bytesReader exampleStreams 4 1) = OPJ_TRUE" by blast
  from t [where sid = 1 and n = "- 4",
      THEN conjunct2, THEN conjunct2, THEN conjunct2, THEN conjunct2, THEN conjunct2,
      THEN conjunct1] k4
  have g: "fst (opjStreamSeek bytesReader exampleStreams (- 4) 1) \<noteq> OPJ_TRUE" by blast
  from a b c d e f g show ?thesis by blast
qed


section \<open>The general-raster decoder: results\<close>

text \<open>The rounding at work: the double nearest to one third, and a tie that goes to even.\<close>

lemma round64_examples:
  "round64 (1 / 3) = 6004799503160661 / 18014398509481984"
  "float64 (2 ^ 53 + 1) = 2 ^ 53"
  "round64 (7 / 16) = 7 / 16"
  by code_simp+

text \<open>
  C7. With one requested dimension 0, the other is to be computed from the crop
  region so that the two scales differ as little as integer, non-zero output sizes
  allow. The code converts the product with \<open>int\<close>, which discards the fraction. For a
  picture of 64 by 1024 and a requested height of 8 the width becomes 0, and
  \<open>doResize\<close> is called with it; for a picture of 4 by 16 and a requested height of 7
  the width becomes 1, where 2 is closer (\<open>|1/4 - 7/16| > |2/4 - 7/16|\<close>).
\<close>

theorem DecodeImage_size_truncates:
  "map_option (\<lambda>i. (decodeWidth i, decodeHeight i))
     (DecodeImage_size (SetResizeWH 0 8 (loadedImage 64 1024))) = Some (0, 8)
   \<and> map_option (\<lambda>i. (decodeWidth i, decodeHeight i))
     (DecodeImage_size (SetResizeWH 0 7 (loadedImage 4 16))) = Some (1, 7)
   \<and> \<bar>1 / 4 - 7 / 16 :: rat\<bar> > \<bar>2 / 4 - 7 / 16\<bar>"
  by code_simp

text \<open>The zero width reaches the imaging library: \<open>doResize\<close> is called, \<open>doCrop\<close> is not.\<close>

lemma DecodeImage_calls_zero_width:
  "map_option (\<lambda>(i, crop, resize). (decodeWidth i, decodeHeight i, crop, resize))
     (DecodeImage_calls (SetResizeWH 0 8 (loadedImage 64 1024))) = Some (0, 8, False, True)"
  by code_simp

end
